theory Spec2Isabelle
  imports Complex_Main "HOL-Library.AList"
begin

section \<open>Values\<close>

text \<open>
  Numeric document fields (prices, the commission rate) hold JavaScript numbers, or are
  absent or null. Finite numbers are modelled as exact rationals: rounding of IEEE doubles
  and the infinities are outside the model.
\<close>

datatype jsnum = Undefined | Null | NaN | Num rat

text \<open>The numeric value of \<^verbatim>\<open>v || d\<close>: \<^verbatim>\<open>v\<close> unless it is falsy (absent, null, NaN, 0).\<close>

fun js_or :: "jsnum \<Rightarrow> rat \<Rightarrow> rat" where
  "js_or (Num r) d = (if r = 0 then d else r)"
| "js_or Undefined d = d"
| "js_or Null d = d"
| "js_or NaN d = d"

text \<open>The result of \<^verbatim>\<open>JSON.parse\<close>; an object is its list of own properties.\<close>

datatype json =
    JNull
  | JBool bool
  | JNumber rat
  | JString string
  | JArray "json list"
  | JObject "(string \<times> json) list"

text \<open>
  Optional chaining \<^verbatim>\<open>v?.k\<close> for the property names the webhook reads; \<open>None\<close> is
  \<^verbatim>\<open>undefined\<close>. Only an object has such a property.
\<close>

fun member :: "json option \<Rightarrow> string \<Rightarrow> json option" where
  "member (Some (JObject kvs)) k = map_of kvs k"
| "member _ k = None"

fun json_truthy :: "json option \<Rightarrow> bool" where
  "json_truthy None = False"
| "json_truthy (Some JNull) = False"
| "json_truthy (Some (JBool b)) = b"
| "json_truthy (Some (JNumber r)) = (r \<noteq> 0)"
| "json_truthy (Some (JString s)) = (s \<noteq> [])"
| "json_truthy (Some (JArray xs)) = True"
| "json_truthy (Some (JObject kvs)) = True"

text \<open>A request header or a string field: absent and empty are both falsy.\<close>

fun str_truthy :: "string option \<Rightarrow> bool" where
  "str_truthy None = False"
| "str_truthy (Some s) = (s \<noteq> [])"

section \<open>The document store\<close>

text \<open>
  A collection maps document ids to documents. It is kept as an association list so that
  the \<^verbatim>\<open>where(...)\<close> queries are computable. Document ids are taken to be single
  path segments: an id that contains a slash, which the client library would normalise
  or refuse as a path, is outside the model.
\<close>

type_synonym 'a collection = "(string \<times> 'a) list"

definition doc_get :: "'a collection \<Rightarrow> string \<Rightarrow> 'a option" where
  "doc_get c k = map_of c k"

definition doc_set :: "'a collection \<Rightarrow> string \<Rightarrow> 'a \<Rightarrow> 'a collection" where
  "doc_set c k d = AList.update k d c"

text \<open>\<^verbatim>\<open>update\<close> fails (\<open>None\<close>) when the document does not exist.\<close>

definition doc_update :: "'a collection \<Rightarrow> string \<Rightarrow> ('a \<Rightarrow> 'a) \<Rightarrow> 'a collection option" where
  "doc_update c k f =
     (case map_of c k of None \<Rightarrow> None | Some d \<Rightarrow> Some (AList.update k (f d) c))"

record order =
  orderId :: string
  buyerId :: string
  sellerId :: string
  productId :: string
  amount :: rat
  status :: string
  platformFee :: "rat option"
  sellerEarning :: "rat option"
  createdAt :: int
  completedAt :: "int option"
  failedAt :: "int option"

record user =
  email :: string
  fullName :: string
  phone :: "string option"
  role :: string
  walletBalance :: rat
  totalEarnings :: rat
  purchases :: "string list"

text \<open>The display-only product fields (thumbnail, links to demos, rating) are left out.\<close>

record product =
  title :: string
  description :: string
  category :: string
  price :: rat
  discountPrice :: jsnum
  downloadLink :: "string option"
  productSellerId :: string
  productStatus :: string
  clicks :: int
  sales :: int
  productCreatedAt :: int

record download_token =
  token :: string
  userId :: string
  tokenProductId :: string
  decryptedLink :: string
  used :: bool
  expiresAt :: int
  tokenCreatedAt :: int
  usedAt :: "int option"

record app_config =
  commissionRate :: jsnum

record store =
  orders :: "order collection"
  users :: "user collection"
  products :: "product collection"
  config :: "app_config option"
  download_tokens :: "download_token collection"
  fcm_tokens :: "string collection"

record env =
  CASHFREE_SECRET_KEY :: "string option"
  ENCRYPT_KEY :: "string option"
  FRONTEND_URL :: string
  BACKEND_URL :: string
  ADMIN_EMAIL :: string

section \<open>Responses and notifications\<close>

datatype response =
    JsonError nat string
  | WebhookAck string
  | OrderCreated string string
  | TokenIssued string
  | Redirect string
  | ProductCreated string

fun http_status :: "response \<Rightarrow> nat" where
  "http_status (JsonError c m) = c"
| "http_status (WebhookAck st) = 200"
| "http_status (OrderCreated sess oid) = 201"
| "http_status (TokenIssued t) = 200"
| "http_status (Redirect l) = 302"
| "http_status (ProductCreated p) = 201"

text \<open>What is handed to the push service: the device token and the payload data.\<close>

datatype notification =
    NewSale string rat string
  | PurchaseConfirmed string string
  | PaymentFailed string
  | ProductUploaded string string string

definition getUserFCMToken :: "store \<Rightarrow> string \<Rightarrow> string option" where
  "getUserFCMToken s uid =
     (case doc_get (fcm_tokens s) uid of
        None \<Rightarrow> None
      | Some t \<Rightarrow> if t = [] then None else Some t)"

definition sendFCM :: "string option \<Rightarrow> (string \<Rightarrow> notification) \<Rightarrow> notification list" where
  "sendFCM tok msg = (case tok of None \<Rightarrow> [] | Some t \<Rightarrow> if t = [] then [] else [msg t])"

section \<open>The payment webhook\<close>

definition arrayUnion :: "string list \<Rightarrow> string \<Rightarrow> string list" where
  "arrayUnion xs x = (if x \<in> set xs then xs else xs @ [x])"

definition effectiveCommissionRate :: "store \<Rightarrow> rat" where
  "effectiveCommissionRate s =
     (case config s of None \<Rightarrow> 10 | Some c \<Rightarrow> js_or (commissionRate c) 10)"

text \<open>
  The settlement batch: four updates that commit together. An update of a document that
  does not exist fails the whole batch; the handler's catch-all then acknowledges with
  \<^verbatim>\<open>error\<close> and nothing is written.
\<close>

definition settle :: "int \<Rightarrow> store \<Rightarrow> string \<Rightarrow> order \<Rightarrow> store \<times> response \<times> notification list" where
  "settle now s oid ord =
     (let rate = effectiveCommissionRate s;
          amt = amount ord;
          fee = amt * (rate / 100);
          earning = amt - fee
      in case doc_update (orders s) oid
                (\<lambda>d. d\<lparr>status := ''completed'', platformFee := Some fee,
                       sellerEarning := Some earning, completedAt := Some now\<rparr>) of
           None \<Rightarrow> (s, WebhookAck ''error'', [])
         | Some orders' \<Rightarrow>
        (case doc_update (users s) (sellerId ord)
                (\<lambda>u. u\<lparr>walletBalance := walletBalance u + earning,
                       totalEarnings := totalEarnings u + earning\<rparr>) of
           None \<Rightarrow> (s, WebhookAck ''error'', [])
         | Some users1 \<Rightarrow>
        (case doc_update (products s) (productId ord) (\<lambda>p. p\<lparr>sales := sales p + 1\<rparr>) of
           None \<Rightarrow> (s, WebhookAck ''error'', [])
         | Some products' \<Rightarrow>
        (case doc_update users1 (buyerId ord)
                (\<lambda>u. u\<lparr>purchases := arrayUnion (purchases u) (productId ord)\<rparr>) of
           None \<Rightarrow> (s, WebhookAck ''error'', [])
         | Some users' \<Rightarrow>
             (s\<lparr>orders := orders', users := users', products := products'\<rparr>,
              WebhookAck ''ok'',
              sendFCM (getUserFCMToken s (sellerId ord)) (\<lambda>t. NewSale t earning oid) @
              sendFCM (getUserFCMToken s (buyerId ord))
                (\<lambda>t. PurchaseConfirmed t (productId ord)))))))"

definition markFailed :: "int \<Rightarrow> store \<Rightarrow> string \<Rightarrow> order \<Rightarrow> store \<times> response \<times> notification list" where
  "markFailed now s oid ord =
     (case doc_update (orders s) oid (\<lambda>d. d\<lparr>status := ''failed'', failedAt := Some now\<rparr>) of
        None \<Rightarrow> (s, WebhookAck ''error'', [])
      | Some orders' \<Rightarrow>
          (s\<lparr>orders := orders'\<rparr>, WebhookAck ''ok'',
           sendFCM (getUserFCMToken s (buyerId ord)) PaymentFailed))"

definition paymentStatusOf :: "json \<Rightarrow> json option" where
  "paymentStatusOf event = member (member (member (Some event) ''data'') ''payment'') ''payment_status''"

definition orderIdOf :: "json \<Rightarrow> json option" where
  "orderIdOf event = member (member (member (Some event) ''data'') ''order'') ''order_id''"

text \<open>The handler from the parsed event on. An order id that is not a string makes the
  document reference throw.\<close>

definition handleEvent :: "int \<Rightarrow> store \<Rightarrow> json \<Rightarrow> store \<times> response \<times> notification list" where
  "handleEvent now s event =
     (let paymentStatus = paymentStatusOf event;
          oidv = orderIdOf event
      in if \<not> json_truthy oidv then (s, WebhookAck ''missing_order_id'', [])
         else case oidv of
           Some (JString oid) \<Rightarrow>
             (case doc_get (orders s) oid of
                None \<Rightarrow> (s, WebhookAck ''order_not_found'', [])
              | Some ord \<Rightarrow>
                  if paymentStatus = Some (JString ''SUCCESS'') then
                    (if status ord = ''completed'' then (s, WebhookAck ''already_completed'', [])
                     else settle now s oid ord)
                  else if paymentStatus = Some (JString ''FAILED'') then
                    (if status ord \<noteq> ''completed'' then markFailed now s oid ord
                     else (s, WebhookAck ''ok'', []))
                  else (s, WebhookAck ''ok'', []))
         | _ \<Rightarrow> (s, WebhookAck ''error'', []))"

text \<open>
  \<open>hmac key msg\<close> is base64(HMAC-SHA256(msg, key)) and \<open>parse\<close> is \<^verbatim>\<open>JSON.parse\<close>
  (\<open>None\<close> when it throws); both are library functions and stay parameters. \<open>now\<close> is the
  server time of the call. A missing secret makes the HMAC constructor throw.
\<close>

definition handleCallback ::
  "(string \<Rightarrow> string \<Rightarrow> string) \<Rightarrow> (string \<Rightarrow> json option) \<Rightarrow> env \<Rightarrow> int \<Rightarrow> store \<Rightarrow>
   string \<Rightarrow> string option \<Rightarrow> string option \<Rightarrow> store \<times> response \<times> notification list" where
  "handleCallback hmac parse e now s rawBody signature timestamp =
     (if \<not> str_truthy signature \<or> \<not> str_truthy timestamp then
        (s, WebhookAck ''signature_missing'', [])
      else case (signature, timestamp, CASHFREE_SECRET_KEY e) of
        (Some sg, Some ts, Some key) \<Rightarrow>
          if hmac key (ts @ rawBody) \<noteq> sg then (s, WebhookAck ''invalid_signature'', [])
          else (case parse rawBody of
                  None \<Rightarrow> (s, WebhookAck ''error'', [])
                | Some event \<Rightarrow> handleEvent now s event)
      | _ \<Rightarrow> (s, WebhookAck ''error'', []))"

text \<open>
  The specification's reading of an authentic delivery: both headers are there and the
  supplied signature is the HMAC of timestamp and raw body under the shared secret.
\<close>

definition signatureMatches ::
  "(string \<Rightarrow> string \<Rightarrow> string) \<Rightarrow> env \<Rightarrow> string \<Rightarrow> string option \<Rightarrow> string option \<Rightarrow> bool" where
  "signatureMatches hmac e rawBody signature timestamp =
     (case (signature, timestamp, CASHFREE_SECRET_KEY e) of
        (Some sg, Some ts, Some key) \<Rightarrow> sg \<noteq> [] \<and> ts \<noteq> [] \<and> sg = hmac key (ts @ rawBody)
      | _ \<Rightarrow> False)"

text \<open>The raw body parses to an event with payment status \<open>st\<close> for order \<open>oid\<close>.\<close>

definition carries :: "(string \<Rightarrow> json option) \<Rightarrow> string \<Rightarrow> string \<Rightarrow> string \<Rightarrow> bool" where
  "carries parse rawBody st oid =
     (oid \<noteq> [] \<and>
      (case parse rawBody of
         None \<Rightarrow> False
       | Some event \<Rightarrow> paymentStatusOf event = Some (JString st) \<and>
                       orderIdOf event = Some (JString oid)))"

text \<open>The same callback delivered once at each of the given times, one after the other.\<close>

fun redeliver ::
  "(string \<Rightarrow> string \<Rightarrow> string) \<Rightarrow> (string \<Rightarrow> json option) \<Rightarrow> env \<Rightarrow> string \<Rightarrow>
   string option \<Rightarrow> string option \<Rightarrow> int list \<Rightarrow> store \<Rightarrow> store \<times> response list" where
  "redeliver hmac parse e rawBody signature timestamp [] s = (s, [])"
| "redeliver hmac parse e rawBody signature timestamp (t # ts) s =
     (case handleCallback hmac parse e t s rawBody signature timestamp of
        (s1, r, ns) \<Rightarrow>
          (case redeliver hmac parse e rawBody signature timestamp ts s1 of
             (s2, rs) \<Rightarrow> (s2, r # rs)))"

section \<open>Purchase initiation\<close>

definition toUpperCase :: "char \<Rightarrow> char" where
  "toUpperCase c =
     (let n = (of_char c :: nat) in if 97 \<le> n \<and> n \<le> 122 then char_of (n - 32) else c)"

text \<open>\<open>uuid\<close> is the value \<^verbatim>\<open>uuidv4()\<close> returned.\<close>

definition createOrderId :: "string \<Rightarrow> string" where
  "createOrderId uuid = ''ORD_'' @ map toUpperCase (take 20 (filter (\<lambda>c. c \<noteq> CHR ''-'') uuid))"

record cashfree_payload =
  order_id :: string
  order_amount :: rat
  order_currency :: string
  customer_id :: string
  customer_email :: string
  customer_phone :: string
  customer_name :: string
  return_url :: string
  notify_url :: string

definition cashfreeOrderPayload ::
  "env \<Rightarrow> string \<Rightarrow> user \<Rightarrow> string \<Rightarrow> string \<Rightarrow> rat \<Rightarrow> cashfree_payload" where
  "cashfreeOrderPayload e uid buyer pid oid orderAmount =
     \<lparr>order_id = oid,
      order_amount = orderAmount,
      order_currency = ''INR'',
      customer_id = uid,
      customer_email = email buyer,
      customer_phone = (if str_truthy (phone buyer) then the (phone buyer) else ''9999999999''),
      customer_name = fullName buyer,
      return_url = FRONTEND_URL e @ ''/user.html?payment=success&product='' @ pid @ ''&order='' @ oid,
      notify_url = BACKEND_URL e @ ''/api/payment/webhook''\<rparr>"

text \<open>The query for a completed order of the pair, \<^verbatim>\<open>limit(1)\<close>.\<close>

definition completedOrders :: "store \<Rightarrow> string \<Rightarrow> string \<Rightarrow> (string \<times> order) list" where
  "completedOrders s uid pid =
     take 1 (filter (\<lambda>(k, d). buyerId d = uid \<and> productId d = pid \<and> status d = ''completed'')
               (orders s))"

definition pendingOrder :: "int \<Rightarrow> string \<Rightarrow> string \<Rightarrow> product \<Rightarrow> string \<Rightarrow> rat \<Rightarrow> order" where
  "pendingOrder now oid uid pdoc pid orderAmount =
     \<lparr>orderId = oid, buyerId = uid, sellerId = productSellerId pdoc, productId = pid,
      amount = orderAmount, status = ''pending'', platformFee = None, sellerEarning = None,
      createdAt = now, completedAt = None, failedAt = None\<rparr>"

text \<open>
  \<open>gateway\<close> is the payment provider's order-creation call: \<open>Inl\<close> its error message when
  it throws, \<open>Inr\<close> the payment session id. \<open>uid\<close> is the authenticated caller.
\<close>

definition initiate ::
  "(cashfree_payload \<Rightarrow> string + string) \<Rightarrow> env \<Rightarrow> int \<Rightarrow> string \<Rightarrow> store \<Rightarrow> string \<Rightarrow>
   string option \<Rightarrow> store \<times> response" where
  "initiate gateway e now uuid s uid productIdReq =
     (case productIdReq of
        None \<Rightarrow> (s, JsonError 400 ''productId is required'')
      | Some pid \<Rightarrow>
        if pid = [] then (s, JsonError 400 ''productId is required'')
        else case doc_get (products s) pid of
          None \<Rightarrow> (s, JsonError 404 ''Product not found'')
        | Some pdoc \<Rightarrow>
         (case doc_get (users s) uid of
            None \<Rightarrow> (s, JsonError 404 ''Buyer account not found'')
          | Some buyer \<Rightarrow>
              if productStatus pdoc \<noteq> ''approved'' then
                (s, JsonError 400 ''This product is not available for purchase'')
              else if completedOrders s uid pid \<noteq> [] then
                (s, JsonError 409 ''You have already purchased this product'')
              else
                (let orderAmount = js_or (discountPrice pdoc) (price pdoc);
                     oid = createOrderId uuid
                 in case gateway (cashfreeOrderPayload e uid buyer pid oid orderAmount) of
                      Inl errMsg \<Rightarrow> (s, JsonError 502 (''Payment gateway error: '' @ errMsg))
                    | Inr sessionId \<Rightarrow>
                        (s\<lparr>orders := doc_set (orders s) oid
                                        (pendingOrder now oid uid pdoc pid orderAmount)\<rparr>,
                         OrderCreated sessionId oid))))"

section \<open>The link cipher\<close>

text \<open>Byte strings are \<open>string\<close>s: a \<open>char\<close> is one byte.\<close>

definition hexDigit :: "nat \<Rightarrow> char" where
  "hexDigit n = ''0123456789abcdef'' ! (n mod 16)"

definition toHex :: "string \<Rightarrow> string" where
  "toHex bs = concat (map (\<lambda>c. [hexDigit (of_char c div 16), hexDigit (of_char c mod 16)]) bs)"

definition hexValue :: "char \<Rightarrow> nat option" where
  "hexValue c =
     (let n = (of_char c :: nat)
      in if 48 \<le> n \<and> n \<le> 57 then Some (n - 48)
         else if 97 \<le> n \<and> n \<le> 102 then Some (n - 87)
         else if 65 \<le> n \<and> n \<le> 70 then Some (n - 55)
         else None)"

text \<open>Decoding stops at the first pair that is not two hex digits.\<close>

fun fromHex :: "string \<Rightarrow> string" where
  "fromHex (a # b # rest) =
     (case (hexValue a, hexValue b) of
        (Some h, Some l) \<Rightarrow> char_of (16 * h + l) # fromHex rest
      | _ \<Rightarrow> [])"
| "fromHex _ = []"

fun split_on :: "char \<Rightarrow> string \<Rightarrow> string list" where
  "split_on sep [] = [[]]"
| "split_on sep (x # xs) =
     (if x = sep then [] # split_on sep xs
      else case split_on sep xs of
             w # ws \<Rightarrow> (x # w) # ws
           | [] \<Rightarrow> [[x]])"

text \<open>
  \<open>enc key iv plain\<close> and \<open>dec key iv cipher\<close> are AES-256-CBC of the crypto library
  (\<open>dec\<close> is \<open>None\<close> when it throws); \<open>iv\<close> is the value \<^verbatim>\<open>randomBytes(16)\<close> returned.
  The cipher constructors throw on a key that is not 32 bytes or an IV that is not 16,
  and the decipher throws on a hex ciphertext of odd length; a throw of either function
  is \<open>None\<close>.
\<close>

definition encryptLink ::
  "(string \<Rightarrow> string \<Rightarrow> string \<Rightarrow> string) \<Rightarrow> env \<Rightarrow> string \<Rightarrow> string \<Rightarrow> string option" where
  "encryptLink enc e iv plainText =
     (case ENCRYPT_KEY e of
        None \<Rightarrow> None
      | Some k \<Rightarrow>
          (let key = take 32 k
           in if length key \<noteq> 32 \<or> length iv \<noteq> 16 then None
              else Some (toHex iv @ '':'' @ toHex (enc key iv plainText))))"

definition decryptLink ::
  "(string \<Rightarrow> string \<Rightarrow> string \<Rightarrow> string option) \<Rightarrow> env \<Rightarrow> string \<Rightarrow> string option" where
  "decryptLink dec e encryptedText =
     (case split_on (CHR '':'') encryptedText of
        ivHex # encrypted # rest \<Rightarrow>
          (case ENCRYPT_KEY e of
             None \<Rightarrow> None
           | Some k \<Rightarrow>
               (let key = take 32 k; iv = fromHex ivHex
                in if length key \<noteq> 32 \<or> length iv \<noteq> 16 then None
                   else if odd (length encrypted) then None
                   else dec key iv (fromHex encrypted)))
      | _ \<Rightarrow> None)"

section \<open>Product creation\<close>



section \<open>Download tokens\<close>

text \<open>\<open>uuid\<close> and \<open>rnd\<close> are the values \<^verbatim>\<open>uuidv4()\<close> and \<^verbatim>\<open>randomBytes(16)\<close> returned.\<close>

definition requestToken ::
  "(string \<Rightarrow> string \<Rightarrow> string \<Rightarrow> string option) \<Rightarrow> env \<Rightarrow> int \<Rightarrow> string \<Rightarrow> string \<Rightarrow> store \<Rightarrow>
   string \<Rightarrow> string \<Rightarrow> store \<times> response" where
  "requestToken dec e now uuid rnd s uid pid =
     (if completedOrders s uid pid = [] then
        (s, JsonError 403 ''Purchase required to download this product'')
      else case doc_get (products s) pid of
        None \<Rightarrow> (s, JsonError 404 ''Product not found'')
      | Some pdoc \<Rightarrow>
          if \<not> str_truthy (downloadLink pdoc) then
            (s, JsonError 500 ''Product download link is not configured'')
          else case decryptLink dec e (the (downloadLink pdoc)) of
            None \<Rightarrow> (s, JsonError 500 ''Failed to generate download token'')
          | Some link \<Rightarrow>
              (let tok = uuid @ ''-'' @ toHex rnd;
                   expires = now + 10 * 60 * 1000
               in (s\<lparr>download_tokens := doc_set (download_tokens s) tok
                        \<lparr>token = tok, userId = uid, tokenProductId = pid, decryptedLink = link,
                         used = False, expiresAt = expires, tokenCreatedAt = now,
                         usedAt = None\<rparr>\<rparr>,
                   TokenIssued tok)))"

definition redeem :: "int \<Rightarrow> store \<Rightarrow> string \<Rightarrow> store \<times> response" where
  "redeem now s tok =
     (case doc_get (download_tokens s) tok of
        None \<Rightarrow> (s, JsonError 404 ''Download token not found'')
      | Some tokenData \<Rightarrow>
          if used tokenData then
            (s, JsonError 410 ''This download link has already been used'')
          else if now > expiresAt tokenData then
            (s, JsonError 410 ''Download link has expired'')
          else case doc_update (download_tokens s) tok
                      (\<lambda>d. d\<lparr>used := True, usedAt := Some now\<rparr>) of
                 None \<Rightarrow> (s, JsonError 500 ''Failed to process download'')
               | Some tokens' \<Rightarrow> (s\<lparr>download_tokens := tokens'\<rparr>, Redirect (decryptedLink tokenData)))"

section \<open>Reachable states\<close>








section \<open>A concrete instance\<close>

text \<open>
  Stand-ins for the library functions and a small store, to run the handlers on concrete
  inputs. The stand-in parser reads a body of the form \<^verbatim>\<open>STATUS orderid\<close>.
\<close>

definition callbackEvent :: "string \<Rightarrow> string \<Rightarrow> json" where
  "callbackEvent st oid =
     JObject [(''data'', JObject [(''payment'', JObject [(''payment_status'', JString st)]),
                                  (''order'', JObject [(''order_id'', JString oid)])])]"

definition stub_parse :: "string \<Rightarrow> json option" where
  "stub_parse b =
     (if b = [] then None
      else Some (callbackEvent (takeWhile (\<lambda>c. c \<noteq> CHR '' '') b)
                               (drop 1 (dropWhile (\<lambda>c. c \<noteq> CHR '' '') b))))"

definition stub_hmac :: "string \<Rightarrow> string \<Rightarrow> string" where
  "stub_hmac key msg = key @ ''/'' @ msg"

definition stub_enc :: "string \<Rightarrow> string \<Rightarrow> string \<Rightarrow> string" where
  "stub_enc key iv plain = rev plain"

definition stub_dec :: "string \<Rightarrow> string \<Rightarrow> string \<Rightarrow> string option" where
  "stub_dec key iv cipher = Some (rev cipher)"

definition stub_gateway :: "cashfree_payload \<Rightarrow> string + string" where
  "stub_gateway p = Inr (''session_'' @ order_id p)"

definition demo_env :: env where
  "demo_env =
     \<lparr>CASHFREE_SECRET_KEY = Some ''k'',
      ENCRYPT_KEY = Some ''0123456789abcdef0123456789abcdef'',
      FRONTEND_URL = ''https://shop'',
      BACKEND_URL = ''https://api'',
      ADMIN_EMAIL = ''admin''\<rparr>"

definition demo_seller :: user where
  "demo_seller =
     \<lparr>email = ''s@x'', fullName = ''S'', phone = None, role = ''seller'',
      walletBalance = 0, totalEarnings = 0, purchases = []\<rparr>"

definition demo_buyer :: user where
  "demo_buyer =
     \<lparr>email = ''b@x'', fullName = ''B'', phone = None, role = ''buyer'',
      walletBalance = 0, totalEarnings = 0, purchases = []\<rparr>"

definition demo_product :: product where
  "demo_product =
     \<lparr>title = ''T'', description = ''D'', category = ''C'', price = 1500,
      discountPrice = Null, downloadLink = Some ''00:00'', productSellerId = ''S1'',
      productStatus = ''approved'', clicks = 0, sales = 0, productCreatedAt = 0\<rparr>"

definition demo_order :: "string \<Rightarrow> order" where
  "demo_order st =
     \<lparr>orderId = ''O1'', buyerId = ''B1'', sellerId = ''S1'', productId = ''P1'',
      amount = 1000, status = st, platformFee = None, sellerEarning = None,
      createdAt = 0, completedAt = None, failedAt = None\<rparr>"

definition demo_store :: "string \<Rightarrow> jsnum \<Rightarrow> store" where
  "demo_store st rate =
     \<lparr>orders = [(''O1'', demo_order st)],
      users = [(''S1'', demo_seller), (''B1'', demo_buyer)],
      products = [(''P1'', demo_product)],
      config = Some \<lparr>commissionRate = rate\<rparr>,
      download_tokens = [],
      fcm_tokens = []\<rparr>"

definition demo_store0 :: store where
  "demo_store0 = (demo_store ''pending'' (Num 10))\<lparr>orders := []\<rparr>"

text \<open>
  One buyer initiates the purchase of one product twice; both orders are pending when the
  gateway then reports SUCCESS for each.
\<close>

definition double_purchase :: store where
  "double_purchase =
     (let s1 = fst (initiate stub_gateway demo_env 1 ''a'' demo_store0 ''B1'' (Some ''P1''));
          s2 = fst (initiate stub_gateway demo_env 2 ''b'' s1 ''B1'' (Some ''P1''));
          s3 = fst (handleCallback stub_hmac stub_parse demo_env 3 s2
                      ''SUCCESS ORD_A'' (Some ''k/17SUCCESS ORD_A'') (Some ''17''))
      in fst (handleCallback stub_hmac stub_parse demo_env 4 s3
                ''SUCCESS ORD_B'' (Some ''k/17SUCCESS ORD_B'') (Some ''17'')))"

text \<open>The store with a pending order whose product document has been deleted.\<close>

definition orphan_store :: store where
  "orphan_store = (demo_store ''pending'' (Num 10))\<lparr>products := []\<rparr>"

text \<open>A store with a completed order and a failed one.\<close>

definition demo_failed_order :: order where
  "demo_failed_order = (demo_order ''failed'')\<lparr>orderId := ''O2'', failedAt := Some 1\<rparr>"

definition two_order_store :: store where
  "two_order_store =
     (demo_store ''completed'' (Num 10))
       \<lparr>orders := [(''O1'', demo_order ''completed''), (''O2'', demo_failed_order)]\<rparr>"

text \<open>A store in which the buyer has a completed order for a product whose link is encrypted.\<close>

definition download_store :: store where
  "download_store =
     (demo_store ''completed'' (Num 10))
       \<lparr>products := [(''P1'', demo_product
            \<lparr>downloadLink := encryptLink stub_enc demo_env ''0123456789abcdef'' ''https://f/x''\<rparr>)]\<rparr>"







section \<open>Acceptance and rejection of a delivery\<close>

lemma handleCallback_accepted:
  "signatureMatches hmac e rawBody signature timestamp \<Longrightarrow> parse rawBody = Some event \<Longrightarrow>
   handleCallback hmac parse e now s rawBody signature timestamp = handleEvent now s event"
  by (auto simp: signatureMatches_def handleCallback_def split: option.splits)

lemma handleCallback_rejected:
  "\<not> signatureMatches hmac e rawBody signature timestamp \<Longrightarrow>
   handleCallback hmac parse e now s rawBody signature timestamp =
     (s, WebhookAck (if \<not> str_truthy signature \<or> \<not> str_truthy timestamp then ''signature_missing''
                     else if CASHFREE_SECRET_KEY e = None then ''error''
                     else ''invalid_signature''), [])"
  by (cases signature; cases timestamp; cases "CASHFREE_SECRET_KEY e")
     (auto simp: signatureMatches_def handleCallback_def)

lemma handleCallback_cases:
  "handleCallback hmac parse e now s rawBody signature timestamp = (s, WebhookAck ''signature_missing'', []) \<or>
   handleCallback hmac parse e now s rawBody signature timestamp = (s, WebhookAck ''invalid_signature'', []) \<or>
   handleCallback hmac parse e now s rawBody signature timestamp = (s, WebhookAck ''error'', []) \<or>
   (\<exists>event. parse rawBody = Some event \<and> signatureMatches hmac e rawBody signature timestamp \<and>
        handleCallback hmac parse e now s rawBody signature timestamp = handleEvent now s event)"
  by (cases signature; cases timestamp; cases "CASHFREE_SECRET_KEY e"; cases "parse rawBody")
     (auto simp: signatureMatches_def handleCallback_def)

lemma stub_parse_failed [simp]: "carries stub_parse ''FAILED O1'' ''FAILED'' ''O1''"
  by (simp add: carries_def stub_parse_def callbackEvent_def paymentStatusOf_def orderIdOf_def)

lemma stub_parse_success [simp]: "carries stub_parse ''SUCCESS O1'' ''SUCCESS'' ''O1''"
  by (simp add: carries_def stub_parse_def callbackEvent_def paymentStatusOf_def orderIdOf_def)

lemma stub_signature_failed [simp]:
  "signatureMatches stub_hmac demo_env ''FAILED O1'' (Some ''k/17FAILED O1'') (Some ''17'')"
  by (simp add: signatureMatches_def stub_hmac_def demo_env_def)

lemma stub_signature_success [simp]:
  "signatureMatches stub_hmac demo_env ''SUCCESS O1'' (Some ''k/17SUCCESS O1'') (Some ''17'')"
  by (simp add: signatureMatches_def stub_hmac_def demo_env_def)

lemma demo_store_order [simp]: "doc_get (orders (demo_store st rate)) ''O1'' = Some (demo_order st)"
  by (simp add: demo_store_def doc_get_def)

lemma demo_order_status [simp]: "status (demo_order st) = st"
  by (simp add: demo_order_def)

section \<open>Store lemmas\<close>

lemma doc_get_doc_update:
  "doc_update c k f = Some c' \<Longrightarrow>
   doc_get c' k' = (if k' = k then map_option f (doc_get c k) else doc_get c k')"
  by (auto simp: doc_update_def doc_get_def update_conv' split: option.splits)

lemma doc_update_Some:
  "doc_get c k = Some d \<Longrightarrow> doc_update c k f = Some (AList.update k (f d) c)"
  by (simp add: doc_update_def doc_get_def)

lemma doc_get_update: "doc_get (AList.update k v c) k' = (if k' = k then Some v else doc_get c k')"
  by (simp add: doc_get_def update_conv')

section \<open>The settlement batch\<close>

text \<open>
  With the order, the seller, the product and the buyer in the store the batch commits:
  the order is completed with fee and earning, the seller is credited once, the product's
  counter goes up by one, the buyer's purchases get the product, and nothing else moves.
\<close>

lemma settle_success:
  assumes o: "doc_get (orders s) oid = Some d0"
    and sl: "doc_get (users s) (sellerId ord) = Some sl"
    and p: "doc_get (products s) (productId ord) = Some p"
    and b: "doc_get (users s) (buyerId ord) = Some b"
  shows "\<exists>s' ns. settle now s oid ord = (s', WebhookAck ''ok'', ns) \<and>
      (\<forall>k. doc_get (orders s') k =
          (if k = oid
           then Some (d0\<lparr>status := ''completed'',
                  platformFee := Some (amount ord * (effectiveCommissionRate s / 100)),
                  sellerEarning :=
                    Some (amount ord - amount ord * (effectiveCommissionRate s / 100)),
                  completedAt := Some now\<rparr>)
           else doc_get (orders s) k)) \<and>
      map_option walletBalance (doc_get (users s') (sellerId ord))
         = Some (walletBalance sl + (amount ord - amount ord * (effectiveCommissionRate s / 100))) \<and>
      map_option totalEarnings (doc_get (users s') (sellerId ord))
         = Some (totalEarnings sl + (amount ord - amount ord * (effectiveCommissionRate s / 100))) \<and>
      map_option purchases (doc_get (users s') (buyerId ord))
         = Some (arrayUnion (purchases b) (productId ord)) \<and>
      (\<forall>k. doc_get (products s') k =
          (if k = productId ord then Some (p\<lparr>sales := sales p + 1\<rparr>)
           else doc_get (products s) k)) \<and>
      (\<forall>k. k \<noteq> sellerId ord \<longrightarrow> k \<noteq> buyerId ord \<longrightarrow>
           doc_get (users s') k = doc_get (users s) k) \<and>
      config s' = config s \<and> download_tokens s' = download_tokens s \<and>
      fcm_tokens s' = fcm_tokens s"
proof -
  let ?E = "amount ord - amount ord * (effectiveCommissionRate s / 100)"
  let ?sl' = "sl\<lparr>walletBalance := walletBalance sl + ?E, totalEarnings := totalEarnings sl + ?E\<rparr>"
  have b1: "doc_get (AList.update (sellerId ord) ?sl' (users s)) (buyerId ord) =
        Some (if buyerId ord = sellerId ord then ?sl' else b)"
    using b by (simp add: doc_get_update)
  show ?thesis
    unfolding settle_def Let_def
    using doc_update_Some[OF o] doc_update_Some[OF sl] doc_update_Some[OF p]
      doc_update_Some[OF b1] sl b
    by (auto simp: doc_get_update)
qed

lemma demo_order_fields [simp]:
  "sellerId (demo_order st) = ''S1''" "buyerId (demo_order st) = ''B1''"
  "productId (demo_order st) = ''P1''" "amount (demo_order st) = 1000"
  by (simp_all add: demo_order_def)

lemma demo_store_docs [simp]:
  "doc_get (users (demo_store st rate)) ''S1'' = Some demo_seller"
  "doc_get (users (demo_store st rate)) ''B1'' = Some demo_buyer"
  "doc_get (products (demo_store st rate)) ''P1'' = Some demo_product"
  "config (demo_store st rate) = Some \<lparr>commissionRate = rate\<rparr>"
  by (simp_all add: demo_store_def doc_get_def)

lemma demo_rate [simp]: "effectiveCommissionRate (demo_store st rate) = js_or rate 10"
  by (simp add: effectiveCommissionRate_def)


lemma delivery_settles:
  assumes "signatureMatches hmac e rawBody signature timestamp"
    and "carries parse rawBody ''SUCCESS'' oid"
    and "doc_get (orders s) oid = Some ord"
    and "status ord \<noteq> ''completed''"
  shows "handleCallback hmac parse e now s rawBody signature timestamp = settle now s oid ord"
proof -
  from assms(2) obtain event where ev: "parse rawBody = Some event"
    "paymentStatusOf event = Some (JString ''SUCCESS'')" "orderIdOf event = Some (JString oid)"
    "oid \<noteq> []"
    by (auto simp: carries_def split: option.splits)
  have "handleEvent now s event = settle now s oid ord"
    using ev assms(3,4) by (simp add: handleEvent_def Let_def)
  then show ?thesis using handleCallback_accepted[of hmac e rawBody signature timestamp parse event now s] assms(1) ev(1) by simp
qed

lemma delivery_already_completed:
  assumes "signatureMatches hmac e rawBody signature timestamp"
    and "carries parse rawBody ''SUCCESS'' oid"
    and "doc_get (orders s) oid = Some ord"
    and "status ord = ''completed''"
  shows "handleCallback hmac parse e now s rawBody signature timestamp
           = (s, WebhookAck ''already_completed'', [])"
proof -
  from assms(2) obtain event where ev: "parse rawBody = Some event"
    "paymentStatusOf event = Some (JString ''SUCCESS'')" "orderIdOf event = Some (JString oid)"
    "oid \<noteq> []"
    by (auto simp: carries_def split: option.splits)
  have "handleEvent now s event = (s, WebhookAck ''already_completed'', [])"
    using ev assms(3,4) by (simp add: handleEvent_def Let_def)
  then show ?thesis using handleCallback_accepted[of hmac e rawBody signature timestamp parse event now s] assms(1) ev(1) by simp
qed

lemma redeliver_already_completed:
  assumes "signatureMatches hmac e rawBody signature timestamp"
    and "carries parse rawBody ''SUCCESS'' oid"
    and "doc_get (orders s) oid = Some ord"
    and "status ord = ''completed''"
  shows "redeliver hmac parse e rawBody signature timestamp ts s
           = (s, replicate (length ts) (WebhookAck ''already_completed''))"
  by (induction ts) (simp_all add: delivery_already_completed[OF assms])


section \<open>Idempotent settlement\<close>

text \<open>
  C1, as the code has it. An authentic SUCCESS callback for an order that is not yet
  completed, whose seller, product and buyer documents exist, is delivered at the times
  \<open>t # ts\<close> (one or more deliveries). The first delivery settles and answers \<^verbatim>\<open>ok\<close>; every later one finds the
  order completed, answers \<^verbatim>\<open>already_completed\<close> and leaves the store as the first
  delivery left it. In the final store the order is completed, the seller's wallet and
  total earnings are up by one seller earning, the product's sale counter by one, and the
  product is in the buyer's purchases once more than before at most.
\<close>

theorem success_redelivery_settles_once:
  assumes auth: "signatureMatches hmac e rawBody signature timestamp"
    and body: "carries parse rawBody ''SUCCESS'' oid"
    and o: "doc_get (orders s) oid = Some ord"
    and st: "status ord \<noteq> ''completed''"
    and sl: "doc_get (users s) (sellerId ord) = Some sl"
    and p: "doc_get (products s) (productId ord) = Some p"
    and b: "doc_get (users s) (buyerId ord) = Some b"
  shows "\<exists>s'. redeliver hmac parse e rawBody signature timestamp (t # ts) s
             = (s', WebhookAck ''ok'' # replicate (length ts) (WebhookAck ''already_completed'')) \<and>
          s' = fst (handleCallback hmac parse e t s rawBody signature timestamp) \<and>
          (\<forall>now. handleCallback hmac parse e now s' rawBody signature timestamp
                    = (s', WebhookAck ''already_completed'', [])) \<and>
          doc_get (orders s') oid
            = Some (ord\<lparr>status := ''completed'',
                  platformFee := Some (amount ord * (effectiveCommissionRate s / 100)),
                  sellerEarning :=
                    Some (amount ord - amount ord * (effectiveCommissionRate s / 100)),
                  completedAt := Some t\<rparr>) \<and>
          map_option walletBalance (doc_get (users s') (sellerId ord))
            = Some (walletBalance sl + (amount ord - amount ord * (effectiveCommissionRate s / 100))) \<and>
          map_option totalEarnings (doc_get (users s') (sellerId ord))
            = Some (totalEarnings sl + (amount ord - amount ord * (effectiveCommissionRate s / 100))) \<and>
          map_option sales (doc_get (products s') (productId ord)) = Some (sales p + 1) \<and>
          map_option purchases (doc_get (users s') (buyerId ord))
            = Some (if productId ord \<in> set (purchases b) then purchases b
                    else purchases b @ [productId ord])"
proof -
  from settle_success[OF o sl p b, of t] obtain s' ns where
    s': "settle t s oid ord = (s', WebhookAck ''ok'', ns)"
    and ord': "doc_get (orders s') oid
            = Some (ord\<lparr>status := ''completed'',
                  platformFee := Some (amount ord * (effectiveCommissionRate s / 100)),
                  sellerEarning :=
                    Some (amount ord - amount ord * (effectiveCommissionRate s / 100)),
                  completedAt := Some t\<rparr>)"
    and w: "map_option walletBalance (doc_get (users s') (sellerId ord))
         = Some (walletBalance sl + (amount ord - amount ord * (effectiveCommissionRate s / 100)))"
    and te: "map_option totalEarnings (doc_get (users s') (sellerId ord))
         = Some (totalEarnings sl + (amount ord - amount ord * (effectiveCommissionRate s / 100)))"
    and pu: "map_option purchases (doc_get (users s') (buyerId ord))
         = Some (arrayUnion (purchases b) (productId ord))"
    and sa: "doc_get (products s') (productId ord) = Some (p\<lparr>sales := sales p + 1\<rparr>)"
    by auto
  have first: "handleCallback hmac parse e t s rawBody signature timestamp
                 = (s', WebhookAck ''ok'', ns)"
    using delivery_settles[OF auth body o st] s' by simp
  have cmp: "status (ord\<lparr>status := ''completed'',
                  platformFee := Some (amount ord * (effectiveCommissionRate s / 100)),
                  sellerEarning :=
                    Some (amount ord - amount ord * (effectiveCommissionRate s / 100)),
                  completedAt := Some t\<rparr>) = ''completed''" by simp
  have rest: "redeliver hmac parse e rawBody signature timestamp ts s'
                = (s', replicate (length ts) (WebhookAck ''already_completed''))"
    by (rule redeliver_already_completed[OF auth body ord' cmp])
  have again: "\<forall>now. handleCallback hmac parse e now s' rawBody signature timestamp
                    = (s', WebhookAck ''already_completed'', [])"
    using delivery_already_completed[OF auth body ord' cmp] by blast
  show ?thesis
    using first rest again ord' w te pu sa by (simp add: arrayUnion_def)
qed

theorem success_redelivery_settles_once_witness:
  "signatureMatches stub_hmac demo_env ''SUCCESS O1'' (Some ''k/17SUCCESS O1'') (Some ''17'') \<and>
   carries stub_parse ''SUCCESS O1'' ''SUCCESS'' ''O1'' \<and>
   doc_get (orders (demo_store ''pending'' (Num 10))) ''O1'' = Some (demo_order ''pending'') \<and>
   status (demo_order ''pending'') \<noteq> ''completed'' \<and>
   doc_get (users (demo_store ''pending'' (Num 10))) (sellerId (demo_order ''pending''))
     = Some demo_seller \<and>
   doc_get (products (demo_store ''pending'' (Num 10))) (productId (demo_order ''pending''))
     = Some demo_product \<and>
   doc_get (users (demo_store ''pending'' (Num 10))) (buyerId (demo_order ''pending''))
     = Some demo_buyer \<and>
   (\<exists>s'. redeliver stub_hmac stub_parse demo_env ''SUCCESS O1'' (Some ''k/17SUCCESS O1'')
            (Some ''17'') [5, 6, 7] (demo_store ''pending'' (Num 10))
          = (s', [WebhookAck ''ok'', WebhookAck ''already_completed'',
                  WebhookAck ''already_completed'']) \<and>
        map_option status (doc_get (orders s') ''O1'') = Some ''completed'' \<and>
        map_option walletBalance (doc_get (users s') ''S1'') = Some 900 \<and>
        map_option totalEarnings (doc_get (users s') ''S1'') = Some 900 \<and>
        map_option sales (doc_get (products s') ''P1'') = Some 1 \<and>
        map_option purchases (doc_get (users s') ''B1'') = Some [''P1''])"
proof -
  have h4: "status (demo_order ''pending'') \<noteq> ''completed''" by simp
  have h5: "doc_get (users (demo_store ''pending'' (Num 10))) (sellerId (demo_order ''pending''))
     = Some demo_seller" by simp
  have h6: "doc_get (products (demo_store ''pending'' (Num 10))) (productId (demo_order ''pending''))
     = Some demo_product" by simp
  have h7: "doc_get (users (demo_store ''pending'' (Num 10))) (buyerId (demo_order ''pending''))
     = Some demo_buyer" by simp
  from success_redelivery_settles_once
         [OF stub_signature_success stub_parse_success demo_store_order h4 h5 h6 h7,
          of 5 "[6, 7]"]
  obtain s' where
    "redeliver stub_hmac stub_parse demo_env ''SUCCESS O1'' (Some ''k/17SUCCESS O1'')
            (Some ''17'') [5, 6, 7] (demo_store ''pending'' (Num 10))
          = (s', [WebhookAck ''ok'', WebhookAck ''already_completed'',
                  WebhookAck ''already_completed''])"
    "map_option status (doc_get (orders s') ''O1'') = Some ''completed''"
    "map_option walletBalance (doc_get (users s') ''S1'') = Some 900"
    "map_option totalEarnings (doc_get (users s') ''S1'') = Some 900"
    "map_option sales (doc_get (products s') ''P1'') = Some 1"
    "map_option purchases (doc_get (users s') ''B1'') = Some [''P1'']"
    by (auto simp: demo_seller_def demo_buyer_def demo_product_def)
  then show ?thesis using h4 h5 h6 h7 by auto
qed


text \<open>
  Without the product document the batch cannot commit: the pending order of a product
  that has been deleted is settled by no delivery. Each delivery is acknowledged with
  \<^verbatim>\<open>error\<close>, the order stays pending and the seller is not credited.
\<close>

theorem deleted_product_is_never_settled:
  "doc_get (orders orphan_store) ''O1'' = Some (demo_order ''pending'') \<and>
   doc_get (products orphan_store) ''P1'' = None \<and>
   snd (redeliver stub_hmac stub_parse demo_env ''SUCCESS O1'' (Some ''k/17SUCCESS O1'')
          (Some ''17'') [5, 6, 7] orphan_store)
     = [WebhookAck ''error'', WebhookAck ''error'', WebhookAck ''error''] \<and>
   map_option status
     (doc_get (orders (fst (redeliver stub_hmac stub_parse demo_env ''SUCCESS O1''
          (Some ''k/17SUCCESS O1'') (Some ''17'') [5, 6, 7] orphan_store))) ''O1'')
     = Some ''pending'' \<and>
   map_option walletBalance
     (doc_get (users (fst (redeliver stub_hmac stub_parse demo_env ''SUCCESS O1''
          (Some ''k/17SUCCESS O1'') (Some ''17'') [5, 6, 7] orphan_store))) ''S1'')
     = Some 0 \<and>
   map_option purchases
     (doc_get (users (fst (redeliver stub_hmac stub_parse demo_env ''SUCCESS O1''
          (Some ''k/17SUCCESS O1'') (Some ''17'') [5, 6, 7] orphan_store))) ''B1'')
     = Some []"
  by code_simp

section \<open>The settlement amounts\<close>

text \<open>
  C5. Settling a pending order whose stored amount is 1000 under a configured commission
  rate of 10 records platform fee 100 and seller earning 900 on the order, credits the
  seller's wallet balance and total earnings by 900, raises the product's sale counter by
  one and puts the product among the buyer's purchases. The product document is
  arbitrary: its price plays no part and is not changed.
\<close>

theorem settlement_of_1000_at_rate_10:
  assumes auth: "signatureMatches hmac e rawBody signature timestamp"
    and body: "carries parse rawBody ''SUCCESS'' oid"
    and o: "doc_get (orders s) oid = Some ord"
    and st: "status ord = ''pending''"
    and amt: "amount ord = 1000"
    and cfg: "config s = Some \<lparr>commissionRate = Num 10\<rparr>"
    and sl: "doc_get (users s) (sellerId ord) = Some sl"
    and p: "doc_get (products s) (productId ord) = Some p"
    and b: "doc_get (users s) (buyerId ord) = Some b"
  shows "\<exists>s' ns. handleCallback hmac parse e now s rawBody signature timestamp
                    = (s', WebhookAck ''ok'', ns) \<and>
          doc_get (orders s') oid
            = Some (ord\<lparr>status := ''completed'', platformFee := Some 100,
                        sellerEarning := Some 900, completedAt := Some now\<rparr>) \<and>
          map_option walletBalance (doc_get (users s') (sellerId ord))
            = Some (walletBalance sl + 900) \<and>
          map_option totalEarnings (doc_get (users s') (sellerId ord))
            = Some (totalEarnings sl + 900) \<and>
          map_option sales (doc_get (products s') (productId ord)) = Some (sales p + 1) \<and>
          map_option price (doc_get (products s') (productId ord)) = Some (price p) \<and>
          map_option purchases (doc_get (users s') (buyerId ord))
            = Some (if productId ord \<in> set (purchases b) then purchases b
                    else purchases b @ [productId ord])"
proof -
  have st': "status ord \<noteq> ''completed''" using st by simp
  have rate: "effectiveCommissionRate s = 10"
    using cfg by (simp add: effectiveCommissionRate_def)
  from settle_success[OF o sl p b, of now] obtain s' ns where
    s': "settle now s oid ord = (s', WebhookAck ''ok'', ns)"
    and ord': "doc_get (orders s') oid
            = Some (ord\<lparr>status := ''completed'',
                  platformFee := Some (amount ord * (effectiveCommissionRate s / 100)),
                  sellerEarning :=
                    Some (amount ord - amount ord * (effectiveCommissionRate s / 100)),
                  completedAt := Some now\<rparr>)"
    and w: "map_option walletBalance (doc_get (users s') (sellerId ord))
         = Some (walletBalance sl + (amount ord - amount ord * (effectiveCommissionRate s / 100)))"
    and te: "map_option totalEarnings (doc_get (users s') (sellerId ord))
         = Some (totalEarnings sl + (amount ord - amount ord * (effectiveCommissionRate s / 100)))"
    and pu: "map_option purchases (doc_get (users s') (buyerId ord))
         = Some (arrayUnion (purchases b) (productId ord))"
    and sa: "doc_get (products s') (productId ord) = Some (p\<lparr>sales := sales p + 1\<rparr>)"
    by auto
  have first: "handleCallback hmac parse e now s rawBody signature timestamp
                 = (s', WebhookAck ''ok'', ns)"
    using delivery_settles[OF auth body o st'] s' by simp
  show ?thesis
    using first ord' w te pu sa by (simp add: rate amt arrayUnion_def)
qed

theorem settlement_of_1000_at_rate_10_witness:
  "signatureMatches stub_hmac demo_env ''SUCCESS O1'' (Some ''k/17SUCCESS O1'') (Some ''17'') \<and>
   carries stub_parse ''SUCCESS O1'' ''SUCCESS'' ''O1'' \<and>
   doc_get (orders (demo_store ''pending'' (Num 10))) ''O1'' = Some (demo_order ''pending'') \<and>
   status (demo_order ''pending'') = ''pending'' \<and>
   amount (demo_order ''pending'') = 1000 \<and>
   config (demo_store ''pending'' (Num 10)) = Some \<lparr>commissionRate = Num 10\<rparr> \<and>
   doc_get (users (demo_store ''pending'' (Num 10))) (sellerId (demo_order ''pending''))
     = Some demo_seller \<and>
   doc_get (products (demo_store ''pending'' (Num 10))) (productId (demo_order ''pending''))
     = Some demo_product \<and>
   price demo_product = 1500 \<and>
   doc_get (users (demo_store ''pending'' (Num 10))) (buyerId (demo_order ''pending''))
     = Some demo_buyer \<and>
   (\<exists>s' ns. handleCallback stub_hmac stub_parse demo_env 5 (demo_store ''pending'' (Num 10))
               ''SUCCESS O1'' (Some ''k/17SUCCESS O1'') (Some ''17'')
             = (s', WebhookAck ''ok'', ns) \<and>
        map_option platformFee (doc_get (orders s') ''O1'') = Some (Some 100) \<and>
        map_option sellerEarning (doc_get (orders s') ''O1'') = Some (Some 900) \<and>
        map_option walletBalance (doc_get (users s') ''S1'') = Some 900 \<and>
        map_option totalEarnings (doc_get (users s') ''S1'') = Some 900 \<and>
        map_option sales (doc_get (products s') ''P1'') = Some 1 \<and>
        map_option purchases (doc_get (users s') ''B1'') = Some [''P1''])"
proof -
  have h4: "status (demo_order ''pending'') = ''pending''" by simp
  have h5: "amount (demo_order ''pending'') = 1000" by simp
  have h6: "config (demo_store ''pending'' (Num 10)) = Some \<lparr>commissionRate = Num 10\<rparr>" by simp
  have h7: "doc_get (users (demo_store ''pending'' (Num 10))) (sellerId (demo_order ''pending''))
     = Some demo_seller" by simp
  have h8: "doc_get (products (demo_store ''pending'' (Num 10))) (productId (demo_order ''pending''))
     = Some demo_product" by simp
  have h9: "doc_get (users (demo_store ''pending'' (Num 10))) (buyerId (demo_order ''pending''))
     = Some demo_buyer" by simp
  have pr: "price demo_product = 1500" by (simp add: demo_product_def)
  from settlement_of_1000_at_rate_10
         [OF stub_signature_success stub_parse_success demo_store_order h4 h5 h6 h7 h8 h9, of 5]
  obtain s' ns where
    "handleCallback stub_hmac stub_parse demo_env 5 (demo_store ''pending'' (Num 10))
               ''SUCCESS O1'' (Some ''k/17SUCCESS O1'') (Some ''17'')
             = (s', WebhookAck ''ok'', ns)"
    "map_option platformFee (doc_get (orders s') ''O1'') = Some (Some 100)"
    "map_option sellerEarning (doc_get (orders s') ''O1'') = Some (Some 900)"
    "map_option walletBalance (doc_get (users s') ''S1'') = Some 900"
    "map_option totalEarnings (doc_get (users s') ''S1'') = Some 900"
    "map_option sales (doc_get (products s') ''P1'') = Some 1"
    "map_option purchases (doc_get (users s') ''B1'') = Some [''P1'']"
    by (auto simp: demo_seller_def demo_buyer_def demo_product_def)
  then show ?thesis using h4 h5 h6 h7 h8 h9 pr by auto
qed

text \<open>
  C10. A configured commission rate that is falsy (0, null, absent or NaN) is replaced by
  the default 10: the settlement deducts a platform fee of 10 percent of the amount.
\<close>

theorem falsy_commission_rate_defaults_to_10:
  assumes auth: "signatureMatches hmac e rawBody signature timestamp"
    and body: "carries parse rawBody ''SUCCESS'' oid"
    and o: "doc_get (orders s) oid = Some ord"
    and st: "status ord \<noteq> ''completed''"
    and cfg: "config s = Some \<lparr>commissionRate = r\<rparr>"
    and falsy: "r = Num 0 \<or> r = Null \<or> r = Undefined \<or> r = NaN"
    and sl: "doc_get (users s) (sellerId ord) = Some sl"
    and p: "doc_get (products s) (productId ord) = Some p"
    and b: "doc_get (users s) (buyerId ord) = Some b"
  shows "effectiveCommissionRate s = 10 \<and>
         (\<exists>s' ns. handleCallback hmac parse e now s rawBody signature timestamp
                    = (s', WebhookAck ''ok'', ns) \<and>
          map_option platformFee (doc_get (orders s') oid) = Some (Some (amount ord * (10 / 100))) \<and>
          map_option sellerEarning (doc_get (orders s') oid)
            = Some (Some (amount ord - amount ord * (10 / 100))) \<and>
          map_option walletBalance (doc_get (users s') (sellerId ord))
            = Some (walletBalance sl + (amount ord - amount ord * (10 / 100))))"
proof -
  have rate: "effectiveCommissionRate s = 10"
    using cfg falsy by (auto simp: effectiveCommissionRate_def)
  from settle_success[OF o sl p b, of now] obtain s' ns where
    s': "settle now s oid ord = (s', WebhookAck ''ok'', ns)"
    and ord': "doc_get (orders s') oid
            = Some (ord\<lparr>status := ''completed'',
                  platformFee := Some (amount ord * (effectiveCommissionRate s / 100)),
                  sellerEarning :=
                    Some (amount ord - amount ord * (effectiveCommissionRate s / 100)),
                  completedAt := Some now\<rparr>)"
    and w: "map_option walletBalance (doc_get (users s') (sellerId ord))
         = Some (walletBalance sl + (amount ord - amount ord * (effectiveCommissionRate s / 100)))"
    by auto
  have first: "handleCallback hmac parse e now s rawBody signature timestamp
                 = (s', WebhookAck ''ok'', ns)"
    using delivery_settles[OF auth body o st] s' by simp
  show ?thesis
    using first ord' w rate by simp
qed

theorem falsy_commission_rate_defaults_to_10_witness:
  "signatureMatches stub_hmac demo_env ''SUCCESS O1'' (Some ''k/17SUCCESS O1'') (Some ''17'') \<and>
   carries stub_parse ''SUCCESS O1'' ''SUCCESS'' ''O1'' \<and>
   doc_get (orders (demo_store ''pending'' (Num 0))) ''O1'' = Some (demo_order ''pending'') \<and>
   status (demo_order ''pending'') \<noteq> ''completed'' \<and>
   config (demo_store ''pending'' (Num 0)) = Some \<lparr>commissionRate = Num 0\<rparr> \<and>
   doc_get (users (demo_store ''pending'' (Num 0))) (sellerId (demo_order ''pending''))
     = Some demo_seller \<and>
   doc_get (products (demo_store ''pending'' (Num 0))) (productId (demo_order ''pending''))
     = Some demo_product \<and>
   doc_get (users (demo_store ''pending'' (Num 0))) (buyerId (demo_order ''pending''))
     = Some demo_buyer \<and>
   effectiveCommissionRate (demo_store ''pending'' (Num 0)) = 10 \<and>
   (\<exists>s' ns. handleCallback stub_hmac stub_parse demo_env 5 (demo_store ''pending'' (Num 0))
               ''SUCCESS O1'' (Some ''k/17SUCCESS O1'') (Some ''17'')
             = (s', WebhookAck ''ok'', ns) \<and>
        map_option platformFee (doc_get (orders s') ''O1'') = Some (Some 100) \<and>
        map_option sellerEarning (doc_get (orders s') ''O1'') = Some (Some 900) \<and>
        map_option walletBalance (doc_get (users s') ''S1'') = Some 900)"
proof -
  have h4: "status (demo_order ''pending'') \<noteq> ''completed''" by simp
  have h5: "config (demo_store ''pending'' (Num 0)) = Some \<lparr>commissionRate = Num 0\<rparr>" by simp
  have h6: "Num 0 = Num 0 \<or> Num 0 = Null \<or> Num 0 = Undefined \<or> Num 0 = NaN" by simp
  have h7: "doc_get (users (demo_store ''pending'' (Num 0))) (sellerId (demo_order ''pending''))
     = Some demo_seller" by simp
  have h8: "doc_get (products (demo_store ''pending'' (Num 0))) (productId (demo_order ''pending''))
     = Some demo_product" by simp
  have h9: "doc_get (users (demo_store ''pending'' (Num 0))) (buyerId (demo_order ''pending''))
     = Some demo_buyer" by simp
  from falsy_commission_rate_defaults_to_10
         [OF stub_signature_success stub_parse_success demo_store_order h4 h5 h6 h7 h8 h9, of 5]
  have r: "effectiveCommissionRate (demo_store ''pending'' (Num 0)) = 10"
    and "\<exists>s' ns. handleCallback stub_hmac stub_parse demo_env 5 (demo_store ''pending'' (Num 0))
               ''SUCCESS O1'' (Some ''k/17SUCCESS O1'') (Some ''17'')
             = (s', WebhookAck ''ok'', ns) \<and>
        map_option platformFee (doc_get (orders s') ''O1'') = Some (Some 100) \<and>
        map_option sellerEarning (doc_get (orders s') ''O1'') = Some (Some 900) \<and>
        map_option walletBalance (doc_get (users s') ''S1'') = Some 900"
    by (auto simp: demo_seller_def)
  then show ?thesis using h4 h5 h7 h8 h9 by auto
qed

section \<open>Order status transitions\<close>

lemma settle_cases:
  "settle now s oid ord = (s, WebhookAck ''error'', []) \<or>
   (\<exists>orders' users' products' ns f.
       doc_update (orders s) oid f = Some orders' \<and>
       f = (\<lambda>d. d\<lparr>status := ''completed'',
                  platformFee := Some (amount ord * (effectiveCommissionRate s / 100)),
                  sellerEarning :=
                    Some (amount ord - amount ord * (effectiveCommissionRate s / 100)),
                  completedAt := Some now\<rparr>) \<and>
       settle now s oid ord
         = (s\<lparr>orders := orders', users := users', products := products'\<rparr>, WebhookAck ''ok'', ns))"
  unfolding settle_def Let_def by (auto split: option.splits)

lemma markFailed_cases:
  "markFailed now s oid ord = (s, WebhookAck ''error'', []) \<or>
   (\<exists>orders' ns.
       doc_update (orders s) oid (\<lambda>d. d\<lparr>status := ''failed'', failedAt := Some now\<rparr>) = Some orders' \<and>
       markFailed now s oid ord = (s\<lparr>orders := orders'\<rparr>, WebhookAck ''ok'', ns))"
  unfolding markFailed_def by (auto split: option.splits)

text \<open>What one processed event does to the order document stored under \<open>k\<close>.\<close>

lemma handleEvent_order:
  assumes "doc_get (orders s) k = Some d"
  shows "doc_get (orders (fst (handleEvent now s event))) k = Some d \<or>
         (status d \<noteq> ''completed'' \<and>
          doc_get (orders (fst (handleEvent now s event))) k
             = Some (d\<lparr>status := ''completed'',
                  platformFee := Some (amount d * (effectiveCommissionRate s / 100)),
                  sellerEarning := Some (amount d - amount d * (effectiveCommissionRate s / 100)),
                  completedAt := Some now\<rparr>)) \<or>
         (status d \<noteq> ''completed'' \<and>
          doc_get (orders (fst (handleEvent now s event))) k
             = Some (d\<lparr>status := ''failed'', failedAt := Some now\<rparr>))"
proof (cases "orderIdOf event")
  case None
  then show ?thesis using assms by (simp add: handleEvent_def Let_def)
next
  case (Some v)
  show ?thesis
  proof (cases v)
    case (JString oid)
    show ?thesis
    proof (cases "oid = k")
      case True
      show ?thesis
        using settle_cases[of now s k d] markFailed_cases[of now s k d] assms Some JString True
        by (auto simp: handleEvent_def Let_def doc_get_doc_update)
    next
      case False
      have "doc_get (orders (fst (handleEvent now s event))) k = Some d"
      proof (cases "doc_get (orders s) oid")
        case None
        then show ?thesis using assms Some JString by (simp add: handleEvent_def Let_def)
      next
        case (Some ord)
        show ?thesis
          using settle_cases[of now s oid ord] markFailed_cases[of now s oid ord] assms
            \<open>orderIdOf event = Some v\<close> JString False Some
          by (auto simp: handleEvent_def Let_def doc_get_doc_update)
      qed
      then show ?thesis by simp
    qed
  qed (use assms Some in \<open>simp_all add: handleEvent_def Let_def\<close>)
qed

lemma handleCallback_order:
  assumes "doc_get (orders s) k = Some d"
  shows "doc_get (orders (fst (handleCallback hmac parse e now s rawBody signature timestamp))) k = Some d \<or>
         (status d \<noteq> ''completed'' \<and>
          doc_get (orders (fst (handleCallback hmac parse e now s rawBody signature timestamp))) k
             = Some (d\<lparr>status := ''completed'',
                  platformFee := Some (amount d * (effectiveCommissionRate s / 100)),
                  sellerEarning := Some (amount d - amount d * (effectiveCommissionRate s / 100)),
                  completedAt := Some now\<rparr>)) \<or>
         (status d \<noteq> ''completed'' \<and>
          doc_get (orders (fst (handleCallback hmac parse e now s rawBody signature timestamp))) k
             = Some (d\<lparr>status := ''failed'', failedAt := Some now\<rparr>))"
  using handleCallback_cases[of hmac parse e now s rawBody signature timestamp]
    handleEvent_order[OF assms, of now] assms
  by (elim disjE exE conjE) simp_all


lemma delivery_marks_failed:
  assumes "signatureMatches hmac e rawBody signature timestamp"
    and "carries parse rawBody ''FAILED'' oid"
    and "doc_get (orders s) oid = Some ord"
    and "status ord \<noteq> ''completed''"
  shows "handleCallback hmac parse e now s rawBody signature timestamp = markFailed now s oid ord"
proof -
  from assms(2) obtain event where ev: "parse rawBody = Some event"
    "paymentStatusOf event = Some (JString ''FAILED'')" "orderIdOf event = Some (JString oid)"
    "oid \<noteq> []"
    by (auto simp: carries_def split: option.splits)
  have "handleEvent now s event = markFailed now s oid ord"
    using ev assms(3,4) by (simp add: handleEvent_def Let_def)
  then show ?thesis
    using handleCallback_accepted[of hmac e rawBody signature timestamp parse event now s]
      assms(1) ev(1) by simp
qed

lemma markFailed_order:
  assumes "doc_get (orders s) oid = Some d0"
  shows "doc_get (orders (fst (markFailed now s oid ord))) oid
           = Some (d0\<lparr>status := ''failed'', failedAt := Some now\<rparr>)"
  using doc_update_Some[OF assms] by (simp add: markFailed_def doc_get_update)

text \<open>
  C4, as the code has it. A delivery moves an order document only to completed or to
  failed, and completed is terminal: whatever the body, the headers and the payment
  status of a delivery are, an order that is completed keeps its document unchanged.
  Failed is not terminal. An authentic FAILED delivery for a failed order keeps the
  status and writes failedAt again, with the time of this delivery; an authentic SUCCESS
  delivery for a failed order whose seller, product and buyer documents exist settles it
  to completed.
\<close>

theorem completed_order_is_terminal:
  assumes "doc_get (orders s) oid = Some ord"
  shows "(status ord = ''completed'' \<longrightarrow>
            doc_get (orders (fst (handleCallback hmac parse e now s rawBody signature timestamp))) oid
              = Some ord) \<and>
         (\<exists>ord'. doc_get (orders (fst (handleCallback hmac parse e now s rawBody signature timestamp))) oid
              = Some ord' \<and>
            (ord' = ord \<or> status ord' = ''completed'' \<or> status ord' = ''failed'')) \<and>
         (doc_get (orders s) oidF = Some ordF \<and> status ordF = ''failed'' \<and>
          signatureMatches hmac e bodyF signatureF timestampF \<and>
          carries parse bodyF ''FAILED'' oidF \<longrightarrow>
            doc_get (orders (fst (handleCallback hmac parse e nowF s bodyF signatureF timestampF)))
                oidF
              = Some (ordF\<lparr>status := ''failed'', failedAt := Some nowF\<rparr>)) \<and>
         (doc_get (orders s) oidF = Some ordF \<and> status ordF = ''failed'' \<and>
          signatureMatches hmac e bodyS signatureS timestampS \<and>
          carries parse bodyS ''SUCCESS'' oidF \<and>
          doc_get (users s) (sellerId ordF) = Some sl \<and>
          doc_get (products s) (productId ordF) = Some p \<and>
          doc_get (users s) (buyerId ordF) = Some b \<longrightarrow>
            doc_get (orders (fst (handleCallback hmac parse e nowS s bodyS signatureS timestampS)))
                oidF
              = Some (ordF\<lparr>status := ''completed'',
                   platformFee := Some (amount ordF * (effectiveCommissionRate s / 100)),
                   sellerEarning :=
                     Some (amount ordF - amount ordF * (effectiveCommissionRate s / 100)),
                   completedAt := Some nowS\<rparr>))"
proof (intro conjI impI)
  assume "status ord = ''completed''"
  then show "doc_get (orders (fst (handleCallback hmac parse e now s rawBody signature timestamp)))
               oid = Some ord"
    using handleCallback_order[OF assms, of hmac parse e now rawBody signature timestamp]
    by (elim disjE exE conjE) simp_all
next
  show "\<exists>ord'. doc_get (orders (fst (handleCallback hmac parse e now s rawBody signature timestamp)))
              oid = Some ord' \<and>
            (ord' = ord \<or> status ord' = ''completed'' \<or> status ord' = ''failed'')"
    using handleCallback_order[OF assms, of hmac parse e now rawBody signature timestamp]
    by (elim disjE exE conjE) simp_all
next
  assume a: "doc_get (orders s) oidF = Some ordF \<and> status ordF = ''failed'' \<and>
          signatureMatches hmac e bodyF signatureF timestampF \<and>
          carries parse bodyF ''FAILED'' oidF"
  then have nc: "status ordF \<noteq> ''completed''" by simp
  have "handleCallback hmac parse e nowF s bodyF signatureF timestampF
          = markFailed nowF s oidF ordF"
    using delivery_marks_failed[of hmac e bodyF signatureF timestampF parse oidF s ordF nowF]
      a nc by blast
  then show "doc_get (orders (fst (handleCallback hmac parse e nowF s bodyF signatureF timestampF)))
                oidF
              = Some (ordF\<lparr>status := ''failed'', failedAt := Some nowF\<rparr>)"
    using markFailed_order[of s oidF ordF nowF ordF] a by simp
next
  assume a: "doc_get (orders s) oidF = Some ordF \<and> status ordF = ''failed'' \<and>
          signatureMatches hmac e bodyS signatureS timestampS \<and>
          carries parse bodyS ''SUCCESS'' oidF \<and>
          doc_get (users s) (sellerId ordF) = Some sl \<and>
          doc_get (products s) (productId ordF) = Some p \<and>
          doc_get (users s) (buyerId ordF) = Some b"
  then have nc: "status ordF \<noteq> ''completed''" by simp
  have h: "handleCallback hmac parse e nowS s bodyS signatureS timestampS
          = settle nowS s oidF ordF"
    using delivery_settles[of hmac e bodyS signatureS timestampS parse oidF s ordF nowS]
      a nc by blast
  from a have o: "doc_get (orders s) oidF = Some ordF"
    and sl: "doc_get (users s) (sellerId ordF) = Some sl"
    and p: "doc_get (products s) (productId ordF) = Some p"
    and b: "doc_get (users s) (buyerId ordF) = Some b" by simp_all
  from settle_success[OF o sl p b, of nowS] obtain s' ns where
    "settle nowS s oidF ordF = (s', WebhookAck ''ok'', ns)"
    "doc_get (orders s') oidF
       = Some (ordF\<lparr>status := ''completed'',
                   platformFee := Some (amount ordF * (effectiveCommissionRate s / 100)),
                   sellerEarning :=
                     Some (amount ordF - amount ordF * (effectiveCommissionRate s / 100)),
                   completedAt := Some nowS\<rparr>)"
    by auto
  then show "doc_get (orders (fst (handleCallback hmac parse e nowS s bodyS signatureS timestampS)))
                oidF
              = Some (ordF\<lparr>status := ''completed'',
                   platformFee := Some (amount ordF * (effectiveCommissionRate s / 100)),
                   sellerEarning :=
                     Some (amount ordF - amount ordF * (effectiveCommissionRate s / 100)),
                   completedAt := Some nowS\<rparr>)"
    using h by simp
qed

theorem completed_order_is_terminal_witness:
  "doc_get (orders two_order_store) ''O1'' = Some (demo_order ''completed'') \<and>
   status (demo_order ''completed'') = ''completed'' \<and>
   doc_get (orders (fst (handleCallback stub_hmac stub_parse demo_env 5 two_order_store
        ''SUCCESS O1'' (Some ''k/17SUCCESS O1'') (Some ''17'')))) ''O1''
     = Some (demo_order ''completed'') \<and>
   doc_get (orders two_order_store) ''O2'' = Some demo_failed_order \<and>
   status demo_failed_order = ''failed'' \<and>
   failedAt demo_failed_order = Some 1 \<and>
   signatureMatches stub_hmac demo_env ''FAILED O2'' (Some ''k/17FAILED O2'') (Some ''17'') \<and>
   carries stub_parse ''FAILED O2'' ''FAILED'' ''O2'' \<and>
   doc_get (orders (fst (handleCallback stub_hmac stub_parse demo_env 6 two_order_store
        ''FAILED O2'' (Some ''k/17FAILED O2'') (Some ''17'')))) ''O2''
     = Some (demo_failed_order\<lparr>status := ''failed'', failedAt := Some 6\<rparr>) \<and>
   signatureMatches stub_hmac demo_env ''SUCCESS O2'' (Some ''k/17SUCCESS O2'') (Some ''17'') \<and>
   carries stub_parse ''SUCCESS O2'' ''SUCCESS'' ''O2'' \<and>
   doc_get (users two_order_store) (sellerId demo_failed_order) = Some demo_seller \<and>
   doc_get (products two_order_store) (productId demo_failed_order) = Some demo_product \<and>
   doc_get (users two_order_store) (buyerId demo_failed_order) = Some demo_buyer \<and>
   map_option status
     (doc_get (orders (fst (handleCallback stub_hmac stub_parse demo_env 7 two_order_store
        ''SUCCESS O2'' (Some ''k/17SUCCESS O2'') (Some ''17'')))) ''O2'')
     = Some ''completed''"
proof -
  have o1: "doc_get (orders two_order_store) ''O1'' = Some (demo_order ''completed'')"
    by (simp add: two_order_store_def doc_get_def)
  have o2: "doc_get (orders two_order_store) ''O2'' = Some demo_failed_order"
    by (simp add: two_order_store_def doc_get_def)
  have st: "status demo_failed_order = ''failed''" "failedAt demo_failed_order = Some 1"
    by (simp_all add: demo_failed_order_def)
  have sf: "signatureMatches stub_hmac demo_env ''FAILED O2'' (Some ''k/17FAILED O2'') (Some ''17'')"
    and ss: "signatureMatches stub_hmac demo_env ''SUCCESS O2'' (Some ''k/17SUCCESS O2'')
               (Some ''17'')"
    by (simp_all add: signatureMatches_def stub_hmac_def demo_env_def)
  have cf: "carries stub_parse ''FAILED O2'' ''FAILED'' ''O2''"
    and cs: "carries stub_parse ''SUCCESS O2'' ''SUCCESS'' ''O2''"
    by (simp_all add: carries_def stub_parse_def callbackEvent_def paymentStatusOf_def
          orderIdOf_def)
  have d: "doc_get (users two_order_store) (sellerId demo_failed_order) = Some demo_seller"
    "doc_get (products two_order_store) (productId demo_failed_order) = Some demo_product"
    "doc_get (users two_order_store) (buyerId demo_failed_order) = Some demo_buyer"
    by (simp_all add: two_order_store_def demo_failed_order_def demo_store_def doc_get_def)
  note inst = completed_order_is_terminal
      [where s = two_order_store and oid = "''O1''" and ord = "demo_order ''completed''"
         and hmac = stub_hmac and parse = stub_parse and e = demo_env and now = 5
         and rawBody = "''SUCCESS O1''" and signature = "Some ''k/17SUCCESS O1''"
         and timestamp = "Some ''17''"
         and oidF = "''O2''" and ordF = demo_failed_order
         and bodyF = "''FAILED O2''" and signatureF = "Some ''k/17FAILED O2''"
         and timestampF = "Some ''17''" and nowF = 6
         and bodyS = "''SUCCESS O2''" and signatureS = "Some ''k/17SUCCESS O2''"
         and timestampS = "Some ''17''" and nowS = 7
         and sl = demo_seller and p = demo_product and b = demo_buyer, OF o1]
  have a: "doc_get (orders (fst (handleCallback stub_hmac stub_parse demo_env 5 two_order_store
        ''SUCCESS O1'' (Some ''k/17SUCCESS O1'') (Some ''17'')))) ''O1''
     = Some (demo_order ''completed'')"
    using inst by simp
  have f: "doc_get (orders (fst (handleCallback stub_hmac stub_parse demo_env 6 two_order_store
        ''FAILED O2'' (Some ''k/17FAILED O2'') (Some ''17'')))) ''O2''
     = Some (demo_failed_order\<lparr>status := ''failed'', failedAt := Some 6\<rparr>)"
    using inst o2 st(1) sf cf by blast
  have c: "doc_get (orders (fst (handleCallback stub_hmac stub_parse demo_env 7 two_order_store
        ''SUCCESS O2'' (Some ''k/17SUCCESS O2'') (Some ''17'')))) ''O2''
     = Some (demo_failed_order\<lparr>status := ''completed'',
          platformFee := Some (amount demo_failed_order
                                * (effectiveCommissionRate two_order_store / 100)),
          sellerEarning := Some (amount demo_failed_order - amount demo_failed_order
                                * (effectiveCommissionRate two_order_store / 100)),
          completedAt := Some 7\<rparr>)"
    using inst o2 st(1) ss cs d by blast
  have c': "map_option status
     (doc_get (orders (fst (handleCallback stub_hmac stub_parse demo_env 7 two_order_store
        ''SUCCESS O2'' (Some ''k/17SUCCESS O2'') (Some ''17'')))) ''O2'')
     = Some ''completed''"
    by (simp add: c)
  show ?thesis using o1 o2 st sf ss cf cs d a f c' by simp
qed

text \<open>
  Failed is not terminal: an authentic SUCCESS delivery for a failed order completes it.
\<close>

theorem failed_order_settled_by_success:
  "doc_get (orders (demo_store ''failed'' (Num 10))) ''O1'' = Some (demo_order ''failed'') \<and>
   status (demo_order ''failed'') = ''failed'' \<and>
   map_option status
     (doc_get (orders (fst (handleCallback stub_hmac stub_parse demo_env 5
          (demo_store ''failed'' (Num 10)) ''SUCCESS O1'' (Some ''k/17SUCCESS O1'') (Some ''17''))))
        ''O1'') = Some ''completed''"
proof -
  have h: "status (demo_order ''failed'') \<noteq> ''completed''" by simp
  have "handleCallback stub_hmac stub_parse demo_env 5
          (demo_store ''failed'' (Num 10)) ''SUCCESS O1'' (Some ''k/17SUCCESS O1'') (Some ''17'')
        = settle 5 (demo_store ''failed'' (Num 10)) ''O1'' (demo_order ''failed'')"
    by (rule delivery_settles[OF stub_signature_success stub_parse_success demo_store_order h])
  moreover from settle_success[of "demo_store ''failed'' (Num 10)" "''O1''" "demo_order ''failed''"
      "demo_order ''failed''" demo_seller demo_product demo_buyer 5]
  obtain s' ns where "settle 5 (demo_store ''failed'' (Num 10)) ''O1'' (demo_order ''failed'')
       = (s', WebhookAck ''ok'', ns)"
    "map_option status (doc_get (orders s') ''O1'') = Some ''completed''"
    by auto
  ultimately show ?thesis by simp
qed

section \<open>Purchase initiation and the gateway\<close>

lemma initiate_cases:
  "fst (initiate gateway e now uuid s uid productIdReq) = s \<or>
   (\<exists>pid pdoc buyer sessionId.
       productIdReq = Some pid \<and> doc_get (products s) pid = Some pdoc \<and>
       doc_get (users s) uid = Some buyer \<and>
       gateway (cashfreeOrderPayload e uid buyer pid (createOrderId uuid)
                  (js_or (discountPrice pdoc) (price pdoc))) = Inr sessionId \<and>
       initiate gateway e now uuid s uid productIdReq =
         (s\<lparr>orders := doc_set (orders s) (createOrderId uuid)
                 (pendingOrder now (createOrderId uuid) uid pdoc pid
                    (js_or (discountPrice pdoc) (price pdoc)))\<rparr>,
          OrderCreated sessionId (createOrderId uuid)))"
  unfolding initiate_def Let_def by (auto split: option.splits sum.splits)

text \<open>
  C8. When the checks before it pass and the gateway's order creation fails, initiation
  answers 502 with the gateway's message and the store is unchanged. In every case,
  either the store is unchanged or the gateway returned a session for the payload of this
  order and exactly the pending order of that payload was written.
\<close>

theorem gateway_failure_persists_nothing:
  "(productIdReq = Some pid \<and> pid \<noteq> [] \<and> doc_get (products s) pid = Some pdoc \<and>
    doc_get (users s) uid = Some buyer \<and> productStatus pdoc = ''approved'' \<and>
    completedOrders s uid pid = [] \<and>
    gateway (cashfreeOrderPayload e uid buyer pid (createOrderId uuid)
               (js_or (discountPrice pdoc) (price pdoc))) = Inl errMsg
    \<longrightarrow> initiate gateway e now uuid s uid productIdReq
          = (s, JsonError 502 (''Payment gateway error: '' @ errMsg)))
   \<and>
   (fst (initiate gateway e now uuid s uid productIdReq) = s \<or>
    (\<exists>pid pdoc buyer sessionId.
       productIdReq = Some pid \<and> doc_get (products s) pid = Some pdoc \<and>
       doc_get (users s) uid = Some buyer \<and>
       gateway (cashfreeOrderPayload e uid buyer pid (createOrderId uuid)
                  (js_or (discountPrice pdoc) (price pdoc))) = Inr sessionId \<and>
       initiate gateway e now uuid s uid productIdReq =
         (s\<lparr>orders := doc_set (orders s) (createOrderId uuid)
                 (pendingOrder now (createOrderId uuid) uid pdoc pid
                    (js_or (discountPrice pdoc) (price pdoc)))\<rparr>,
          OrderCreated sessionId (createOrderId uuid))))"
proof (intro conjI impI)
  assume "productIdReq = Some pid \<and> pid \<noteq> [] \<and> doc_get (products s) pid = Some pdoc \<and>
    doc_get (users s) uid = Some buyer \<and> productStatus pdoc = ''approved'' \<and>
    completedOrders s uid pid = [] \<and>
    gateway (cashfreeOrderPayload e uid buyer pid (createOrderId uuid)
               (js_or (discountPrice pdoc) (price pdoc))) = Inl errMsg"
  then show "initiate gateway e now uuid s uid productIdReq
          = (s, JsonError 502 (''Payment gateway error: '' @ errMsg))"
    by (simp add: initiate_def Let_def)
next
  show "fst (initiate gateway e now uuid s uid productIdReq) = s \<or>
    (\<exists>pid pdoc buyer sessionId.
       productIdReq = Some pid \<and> doc_get (products s) pid = Some pdoc \<and>
       doc_get (users s) uid = Some buyer \<and>
       gateway (cashfreeOrderPayload e uid buyer pid (createOrderId uuid)
                  (js_or (discountPrice pdoc) (price pdoc))) = Inr sessionId \<and>
       initiate gateway e now uuid s uid productIdReq =
         (s\<lparr>orders := doc_set (orders s) (createOrderId uuid)
                 (pendingOrder now (createOrderId uuid) uid pdoc pid
                    (js_or (discountPrice pdoc) (price pdoc)))\<rparr>,
          OrderCreated sessionId (createOrderId uuid)))"
    by (rule initiate_cases)
qed

theorem gateway_failure_persists_nothing_witness:
  "doc_get (products demo_store0) ''P1'' = Some demo_product \<and>
   doc_get (users demo_store0) ''B1'' = Some demo_buyer \<and>
   productStatus demo_product = ''approved'' \<and>
   completedOrders demo_store0 ''B1'' ''P1'' = [] \<and>
   initiate (\<lambda>p. Inl ''down'') demo_env 1 ''a'' demo_store0 ''B1'' (Some ''P1'')
     = (demo_store0, JsonError 502 ''Payment gateway error: down'')"
  using gateway_failure_persists_nothing
          [where productIdReq = "Some ''P1''" and pid = "''P1''" and s = demo_store0
             and pdoc = demo_product and uid = "''B1''" and buyer = demo_buyer
             and gateway = "\<lambda>p. Inl ''down''" and e = demo_env and uuid = "''a''"
             and errMsg = "''down''" and now = 1]
  by (simp add: demo_store0_def demo_store_def doc_get_def demo_product_def
        completedOrders_def)

section \<open>Completed orders per buyer and product\<close>

lemma completedOrders_nonempty:
  assumes "(k, d) \<in> set (orders s)" "buyerId d = uid" "productId d = pid" "status d = ''completed''"
  shows "completedOrders s uid pid \<noteq> []"
proof -
  have "(k, d) \<in> set (filter (\<lambda>(k, d). buyerId d = uid \<and> productId d = pid \<and> status d = ''completed'')
               (orders s))"
    using assms by simp
  then have "filter (\<lambda>(k, d). buyerId d = uid \<and> productId d = pid \<and> status d = ''completed'')
               (orders s) \<noteq> []"
    by (metis empty_iff empty_set)
  then show ?thesis by (simp add: completedOrders_def)
qed

text \<open>
  C7, as the code has it. Initiation answers 409 and leaves the store unchanged whenever
  the orders collection holds a completed order of the caller for the product, the
  product exists and is approved, and the caller's account exists.
\<close>

theorem initiate_rejects_completed_pair:
  assumes "productIdReq = Some pid" and "pid \<noteq> []"
    and "doc_get (products s) pid = Some pdoc" and "productStatus pdoc = ''approved''"
    and "doc_get (users s) uid = Some buyer"
    and "(k, d) \<in> set (orders s)" and "buyerId d = uid" and "productId d = pid"
    and "status d = ''completed''"
  shows "initiate gateway e now uuid s uid productIdReq
           = (s, JsonError 409 ''You have already purchased this product'')"
  using assms(1-5) completedOrders_nonempty[OF assms(6-9)]
  by (simp add: initiate_def)

theorem initiate_rejects_completed_pair_witness:
  "doc_get (products (demo_store ''completed'' (Num 10))) ''P1'' = Some demo_product \<and>
   productStatus demo_product = ''approved'' \<and>
   doc_get (users (demo_store ''completed'' (Num 10))) ''B1'' = Some demo_buyer \<and>
   (''O1'', demo_order ''completed'') \<in> set (orders (demo_store ''completed'' (Num 10))) \<and>
   buyerId (demo_order ''completed'') = ''B1'' \<and>
   productId (demo_order ''completed'') = ''P1'' \<and>
   status (demo_order ''completed'') = ''completed'' \<and>
   initiate stub_gateway demo_env 1 ''a'' (demo_store ''completed'' (Num 10)) ''B1'' (Some ''P1'')
     = (demo_store ''completed'' (Num 10),
        JsonError 409 ''You have already purchased this product'')"
proof -
  have h1: "productStatus demo_product = ''approved''" by (simp add: demo_product_def)
  have h2: "(''O1'', demo_order ''completed'') \<in> set (orders (demo_store ''completed'' (Num 10)))"
    by (simp add: demo_store_def)
  have h3: "''P1'' \<noteq> []" by simp
  have "initiate stub_gateway demo_env 1 ''a'' (demo_store ''completed'' (Num 10)) ''B1''
          (Some ''P1'')
        = (demo_store ''completed'' (Num 10),
           JsonError 409 ''You have already purchased this product'')"
    by (rule initiate_rejects_completed_pair
               [OF refl h3 demo_store_docs(3) h1 demo_store_docs(2) h2
                   demo_order_fields(2) demo_order_fields(3) demo_order_status])
  then show ?thesis using h1 h2 by simp
qed

text \<open>
  The check looks at completed orders only, and settlement does not look at other orders:
  two orders of one buyer for one product, both initiated before either is settled, are
  both completed by their SUCCESS callbacks, and the seller is credited twice.
\<close>

theorem two_completed_orders_for_one_pair:
  "snd (initiate stub_gateway demo_env 1 ''a'' demo_store0 ''B1'' (Some ''P1''))
     = OrderCreated ''session_ORD_A'' ''ORD_A'' \<and>
   snd (initiate stub_gateway demo_env 2 ''b''
          (fst (initiate stub_gateway demo_env 1 ''a'' demo_store0 ''B1'' (Some ''P1'')))
          ''B1'' (Some ''P1''))
     = OrderCreated ''session_ORD_B'' ''ORD_B'' \<and>
   map_option buyerId (doc_get (orders double_purchase) ''ORD_A'') = Some ''B1'' \<and>
   map_option productId (doc_get (orders double_purchase) ''ORD_A'') = Some ''P1'' \<and>
   map_option status (doc_get (orders double_purchase) ''ORD_A'') = Some ''completed'' \<and>
   map_option buyerId (doc_get (orders double_purchase) ''ORD_B'') = Some ''B1'' \<and>
   map_option productId (doc_get (orders double_purchase) ''ORD_B'') = Some ''P1'' \<and>
   map_option status (doc_get (orders double_purchase) ''ORD_B'') = Some ''completed'' \<and>
   map_option walletBalance (doc_get (users double_purchase) ''S1'') = Some 2700 \<and>
   length (orders double_purchase) = 2"
  by code_simp


section \<open>The link envelope\<close>

lemma of_char_less_256: "(of_char c :: nat) < 256"
proof -
  have "(of_char c :: nat) mod 256 < 256" by simp
  then show ?thesis by (simp only: of_char_mod_256)
qed

lemma hexDigit_table:
  "\<forall>n \<in> set [0..<16]. hexValue (hexDigit n) = Some n \<and> hexDigit n \<noteq> CHR '':''"
  by code_simp

lemma hexValue_hexDigit: "n < 16 \<Longrightarrow> hexValue (hexDigit n) = Some n"
  using hexDigit_table by simp

lemma hexDigit_not_colon: "hexDigit n \<noteq> CHR '':''"
proof -
  have "hexDigit n = hexDigit (n mod 16)" by (simp add: hexDigit_def)
  moreover have "hexDigit (n mod 16) \<noteq> CHR '':''" using hexDigit_table by simp
  ultimately show ?thesis by simp
qed

lemma toHex_Cons:
  "toHex (c # cs) = hexDigit (of_char c div 16) # hexDigit (of_char c mod 16) # toHex cs"
  by (simp add: toHex_def)

lemma toHex_Nil [simp]: "toHex [] = []"
  by (simp add: toHex_def)

lemma fromHex_toHex: "fromHex (toHex bs) = bs"
proof (induction bs)
  case Nil
  show ?case by simp
next
  case (Cons c cs)
  have hi: "(of_char c :: nat) div 16 < 16" using of_char_less_256[of c] by presburger
  have lo: "(of_char c :: nat) mod 16 < 16" by simp
  have "char_of (16 * ((of_char c :: nat) div 16) + of_char c mod 16) = c" by simp
  then show ?case
    using Cons.IH by (simp add: toHex_Cons hexValue_hexDigit[OF hi] hexValue_hexDigit[OF lo])
qed

lemma length_toHex: "length (toHex bs) = 2 * length bs"
  by (induction bs) (simp_all add: toHex_Cons)

lemma colon_notin_toHex: "CHR '':'' \<notin> set (toHex bs)"
  by (induction bs) (simp_all add: toHex_Cons hexDigit_not_colon[symmetric] hexDigit_not_colon)

lemma split_on_no_sep: "sep \<notin> set xs \<Longrightarrow> split_on sep xs = [xs]"
  by (induction xs) auto

lemma split_on_first: "sep \<notin> set xs \<Longrightarrow> split_on sep (xs @ sep # ys) = xs # split_on sep ys"
  by (induction xs) auto

lemma split_envelope:
  "split_on (CHR '':'') (toHex iv @ CHR '':'' # toHex c) = [toHex iv, toHex c]"
  using split_on_first[OF colon_notin_toHex, of iv "toHex c"] split_on_no_sep[OF colon_notin_toHex, of c]
  by simp

text \<open>Decryption of an envelope made by encryption is one call of the cipher's inverse on the same
  key, IV and ciphertext.\<close>

lemma decryptLink_encryptLink:
  assumes "encryptLink enc e iv plain = Some envelope"
  shows "decryptLink dec e envelope = dec (take 32 (the (ENCRYPT_KEY e))) iv (enc (take 32 (the (ENCRYPT_KEY e))) iv plain)"
  using assms
  by (auto simp: encryptLink_def decryptLink_def Let_def split_envelope fromHex_toHex
      length_toHex split: option.splits if_splits)

lemma encryptLink_Some:
  assumes "ENCRYPT_KEY e = Some k" "32 \<le> length k" "length iv = 16"
  shows "encryptLink enc e iv plain = Some (toHex iv @ '':'' @ toHex (enc (take 32 k) iv plain))"
  using assms by (simp add: encryptLink_def Let_def)

section \<open>Download token round trip\<close>

lemma requestToken_issues:
  assumes bought: "completedOrders s uid pid \<noteq> []"
    and prod: "doc_get (products s) pid = Some pdoc"
    and link: "downloadLink pdoc = Some envelope" "envelope \<noteq> []"
    and dec: "decryptLink dec e envelope = Some location"
  shows "requestToken dec e t1 uuid rnd s uid pid =
           (s\<lparr>download_tokens := doc_set (download_tokens s) (uuid @ ''-'' @ toHex rnd)
                \<lparr>token = uuid @ ''-'' @ toHex rnd, userId = uid, tokenProductId = pid,
                 decryptedLink = location, used = False, expiresAt = t1 + 600000,
                 tokenCreatedAt = t1, usedAt = None\<rparr>\<rparr>,
            TokenIssued (uuid @ ''-'' @ toHex rnd))"
  using assms by (simp add: requestToken_def Let_def)

lemma redeem_fresh:
  assumes "doc_get (download_tokens s) tok = Some td" "\<not> used td" "t2 \<le> expiresAt td"
  shows "redeem t2 s tok =
           (s\<lparr>download_tokens := AList.update tok (td\<lparr>used := True, usedAt := Some t2\<rparr>)
                                     (download_tokens s)\<rparr>,
            Redirect (decryptedLink td))"
  using assms by (simp add: redeem_def doc_update_Some)

lemma redeem_used:
  assumes "doc_get (download_tokens s) tok = Some td" "used td"
  shows "redeem t3 s tok = (s, JsonError 410 ''This download link has already been used'')"
  using assms by (simp add: redeem_def)

text \<open>
  C9. The product's stored link is the envelope that encryptLink made of a location, the
  caller has a completed order for the product, and the cipher's decryption inverts its
  encryption on this key, IV and location. Then requestToken issues a token, redeeming it
  within the ten minutes of its validity redirects to exactly that location, and any
  further redemption of the token answers 410 Gone.
\<close>

theorem download_round_trip:
  assumes cipher: "dec (take 32 k) iv (enc (take 32 k) iv location) = Some location"
    and key: "ENCRYPT_KEY e = Some k" "32 \<le> length k"
    and iv: "length iv = 16"
    and prod: "doc_get (products s) pid = Some pdoc"
    and link: "downloadLink pdoc = encryptLink enc e iv location"
    and bought: "(k0, d) \<in> set (orders s)" "buyerId d = uid" "productId d = pid"
      "status d = ''completed''"
    and time: "t2 \<le> t1 + 600000"
  shows "\<exists>s1 tok s2.
           requestToken dec e t1 uuid rnd s uid pid = (s1, TokenIssued tok) \<and>
           redeem t2 s1 tok = (s2, Redirect location) \<and>
           (\<forall>t3. redeem t3 s2 tok
                    = (s2, JsonError 410 ''This download link has already been used''))"
proof -
  let ?envelope = "toHex iv @ '':'' @ toHex (enc (take 32 k) iv location)"
  let ?tok = "uuid @ ''-'' @ toHex rnd"
  let ?td = "\<lparr>token = ?tok, userId = uid, tokenProductId = pid,
                 decryptedLink = location, used = False, expiresAt = t1 + 600000,
                 tokenCreatedAt = t1, usedAt = None\<rparr>"
  let ?s1 = "s\<lparr>download_tokens := doc_set (download_tokens s) ?tok ?td\<rparr>"
  let ?s2 = "?s1\<lparr>download_tokens := AList.update ?tok (?td\<lparr>used := True, usedAt := Some t2\<rparr>)
                                     (download_tokens ?s1)\<rparr>"
  have env: "encryptLink enc e iv location = Some ?envelope"
    by (rule encryptLink_Some[OF key iv])
  have dl: "decryptLink dec e ?envelope = Some location"
    using decryptLink_encryptLink[OF env, of dec] key(1) cipher by simp
  have ne: "?envelope \<noteq> []" by simp
  have lk: "downloadLink pdoc = Some ?envelope" using link env by simp
  have r1: "requestToken dec e t1 uuid rnd s uid pid = (?s1, TokenIssued ?tok)"
    by (rule requestToken_issues[OF completedOrders_nonempty[OF bought] prod lk ne dl])
  have g1: "doc_get (download_tokens ?s1) ?tok = Some ?td"
    by (simp add: doc_set_def doc_get_update)
  have r2: "redeem t2 ?s1 ?tok = (?s2, Redirect location)"
    using redeem_fresh[OF g1, of t2] time by simp
  have g2: "doc_get (download_tokens ?s2) ?tok = Some (?td\<lparr>used := True, usedAt := Some t2\<rparr>)"
    by (simp add: doc_get_update)
  have r3: "\<forall>t3. redeem t3 ?s2 ?tok
                    = (?s2, JsonError 410 ''This download link has already been used'')"
    using redeem_used[OF g2] by simp
  show ?thesis using r1 r2 r3 by blast
qed

theorem download_round_trip_witness:
  "stub_dec (take 32 ''0123456789abcdef0123456789abcdef'') ''0123456789abcdef''
     (stub_enc (take 32 ''0123456789abcdef0123456789abcdef'') ''0123456789abcdef'' ''https://f/x'')
     = Some ''https://f/x'' \<and>
   ENCRYPT_KEY demo_env = Some ''0123456789abcdef0123456789abcdef'' \<and>
   length ''0123456789abcdef'' = 16 \<and>
   doc_get (products download_store) ''P1''
     = Some (demo_product\<lparr>downloadLink :=
               encryptLink stub_enc demo_env ''0123456789abcdef'' ''https://f/x''\<rparr>) \<and>
   (''O1'', demo_order ''completed'') \<in> set (orders download_store) \<and>
   (\<exists>s1 tok s2.
       requestToken stub_dec demo_env 100 ''u'' ''r'' download_store ''B1'' ''P1''
         = (s1, TokenIssued tok) \<and>
       redeem 200 s1 tok = (s2, Redirect ''https://f/x'') \<and>
       redeem 300 s2 tok = (s2, JsonError 410 ''This download link has already been used''))"
proof -
  have c: "stub_dec (take 32 ''0123456789abcdef0123456789abcdef'') ''0123456789abcdef''
     (stub_enc (take 32 ''0123456789abcdef0123456789abcdef'') ''0123456789abcdef'' ''https://f/x'')
     = Some ''https://f/x''"
    by (simp add: stub_dec_def stub_enc_def)
  have k: "ENCRYPT_KEY demo_env = Some ''0123456789abcdef0123456789abcdef''"
    by (simp add: demo_env_def)
  have kl: "32 \<le> length ''0123456789abcdef0123456789abcdef''" by simp
  have il: "length ''0123456789abcdef'' = 16" by simp
  have p: "doc_get (products download_store) ''P1''
     = Some (demo_product\<lparr>downloadLink :=
               encryptLink stub_enc demo_env ''0123456789abcdef'' ''https://f/x''\<rparr>)"
    by (simp add: download_store_def doc_get_def)
  have l: "downloadLink (demo_product\<lparr>downloadLink :=
               encryptLink stub_enc demo_env ''0123456789abcdef'' ''https://f/x''\<rparr>)
           = encryptLink stub_enc demo_env ''0123456789abcdef'' ''https://f/x''" by simp
  have m: "(''O1'', demo_order ''completed'') \<in> set (orders download_store)"
    by (simp add: download_store_def demo_store_def)
  have t: "(200::int) \<le> 100 + 600000" by simp
  have b: "buyerId (demo_order ''completed'') = ''B1''"
    and q: "productId (demo_order ''completed'') = ''P1''"
    and st: "status (demo_order ''completed'') = ''completed''" by simp_all
  from download_round_trip
         [where dec = stub_dec and enc = stub_enc and e = demo_env and s = download_store
            and k = "''0123456789abcdef0123456789abcdef''" and iv = "''0123456789abcdef''"
            and location = "''https://f/x''" and pid = "''P1''" and uid = "''B1''"
            and ?k0.0 = "''O1''" and d = "demo_order ''completed''" and ?t1.0 = 100
            and ?t2.0 = 200 and uuid = "''u''" and rnd = "''r''",
          OF c k kl il p l m b q st t]
  obtain s1 tok s2 where
    "requestToken stub_dec demo_env 100 ''u'' ''r'' download_store ''B1'' ''P1''
         = (s1, TokenIssued tok)"
    "redeem 200 s1 tok = (s2, Redirect ''https://f/x'')"
    "redeem 300 s2 tok = (s2, JsonError 410 ''This download link has already been used'')"
    by blast
  then show ?thesis using c k il p m by blast
qed

section \<open>Download links at rest\<close>





















section \<open>A completed order is not downgraded\<close>

text \<open>
  C3. When the order is completed, a delivery whose body carries payment status FAILED for
  it leaves the whole store as it was, whatever the headers are; the order document in
  particular keeps its status and gets no failure timestamp. An authentic delivery is
  acknowledged with \<^verbatim>\<open>ok\<close>.
\<close>

theorem failed_after_completed_unchanged:
  assumes "carries parse rawBody ''FAILED'' oid"
    and "doc_get (orders s) oid = Some ord"
    and "status ord = ''completed''"
  shows "fst (handleCallback hmac parse e now s rawBody signature timestamp) = s \<and>
         doc_get (orders (fst (handleCallback hmac parse e now s rawBody signature timestamp))) oid
           = Some ord \<and>
         (signatureMatches hmac e rawBody signature timestamp \<longrightarrow>
            handleCallback hmac parse e now s rawBody signature timestamp
              = (s, WebhookAck ''ok'', []))"
proof -
  from assms(1) obtain event where ev: "parse rawBody = Some event"
    "paymentStatusOf event = Some (JString ''FAILED'')" "orderIdOf event = Some (JString oid)"
    "oid \<noteq> []"
    by (auto simp: carries_def split: option.splits)
  have ok: "handleEvent now s event = (s, WebhookAck ''ok'', [])"
    using ev assms(2,3) by (simp add: handleEvent_def Let_def)
  have "fst (handleCallback hmac parse e now s rawBody signature timestamp) = s"
    using handleCallback_cases[of hmac parse e now s rawBody signature timestamp] ev(1) ok
    by auto
  moreover have "signatureMatches hmac e rawBody signature timestamp \<longrightarrow>
      handleCallback hmac parse e now s rawBody signature timestamp = (s, WebhookAck ''ok'', [])"
    using handleCallback_accepted[of hmac e rawBody signature timestamp parse event now s]
      ev(1) ok by simp
  ultimately show ?thesis using assms(2) by simp
qed

theorem failed_after_completed_unchanged_witness:
  "carries stub_parse ''FAILED O1'' ''FAILED'' ''O1'' \<and>
   doc_get (orders (demo_store ''completed'' (Num 10))) ''O1'' = Some (demo_order ''completed'') \<and>
   status (demo_order ''completed'') = ''completed'' \<and>
   signatureMatches stub_hmac demo_env ''FAILED O1'' (Some ''k/17FAILED O1'') (Some ''17'') \<and>
   handleCallback stub_hmac stub_parse demo_env 5 (demo_store ''completed'' (Num 10))
       ''FAILED O1'' (Some ''k/17FAILED O1'') (Some ''17'')
     = (demo_store ''completed'' (Num 10), WebhookAck ''ok'', [])"
  using failed_after_completed_unchanged
          [of stub_parse "''FAILED O1''" "''O1''" "demo_store ''completed'' (Num 10)"
              "demo_order ''completed''" stub_hmac demo_env 5 "Some ''k/17FAILED O1''" "Some ''17''"]
  by simp

section \<open>Rejected signatures\<close>

text \<open>
  C6. When a header is missing or the supplied signature is not the HMAC of timestamp and
  raw body under the shared secret, the handler answers with one fixed acknowledgement,
  HTTP 200 with a rejection reason, that is the same for every store and time: it neither
  writes nor reads the store. With the secret configured the reason is
  \<^verbatim>\<open>signature_missing\<close> or \<^verbatim>\<open>invalid_signature\<close>.
\<close>

theorem rejected_signature_touches_nothing:
  assumes "\<not> signatureMatches hmac e rawBody signature timestamp"
  shows "\<exists>reason. reason \<in> {''signature_missing'', ''invalid_signature'', ''error''} \<and>
           (CASHFREE_SECRET_KEY e \<noteq> None \<longrightarrow> reason \<noteq> ''error'') \<and>
           http_status (WebhookAck reason) = 200 \<and>
           (\<forall>s now. handleCallback hmac parse e now s rawBody signature timestamp
                      = (s, WebhookAck reason, []))"
proof -
  let ?r = "if \<not> str_truthy signature \<or> \<not> str_truthy timestamp then ''signature_missing''
            else if CASHFREE_SECRET_KEY e = None then ''error'' else ''invalid_signature''"
  have "\<forall>s now. handleCallback hmac parse e now s rawBody signature timestamp
                  = (s, WebhookAck ?r, [])"
    using handleCallback_rejected[OF assms] by blast
  moreover have "?r \<in> {''signature_missing'', ''invalid_signature'', ''error''}" by simp
  moreover have "CASHFREE_SECRET_KEY e \<noteq> None \<longrightarrow> ?r \<noteq> ''error''" by simp
  ultimately show ?thesis by (intro exI[of _ ?r]) simp
qed

theorem rejected_signature_touches_nothing_witness:
  "\<not> signatureMatches stub_hmac demo_env ''SUCCESS O1'' (Some ''forged'') (Some ''17'') \<and>
   CASHFREE_SECRET_KEY demo_env \<noteq> None \<and>
   (\<exists>reason. reason \<in> {''signature_missing'', ''invalid_signature'', ''error''} \<and>
      reason \<noteq> ''error'' \<and>
      handleCallback stub_hmac stub_parse demo_env 5 (demo_store ''pending'' (Num 10))
          ''SUCCESS O1'' (Some ''forged'') (Some ''17'')
        = (demo_store ''pending'' (Num 10), WebhookAck reason, []))"
proof -
  have h: "\<not> signatureMatches stub_hmac demo_env ''SUCCESS O1'' (Some ''forged'') (Some ''17'')"
    by (simp add: signatureMatches_def stub_hmac_def demo_env_def)
  have k: "CASHFREE_SECRET_KEY demo_env \<noteq> None" by (simp add: demo_env_def)
  from rejected_signature_touches_nothing[OF h, of stub_parse] k
  obtain reason where "reason \<in> {''signature_missing'', ''invalid_signature'', ''error''}"
    "reason \<noteq> ''error''"
    "\<forall>s now. handleCallback stub_hmac stub_parse demo_env now s ''SUCCESS O1'' (Some ''forged'')
        (Some ''17'') = (s, WebhookAck reason, [])"
    by blast
  then show ?thesis using h k by blast
qed

end
